theory Spec2Isabelle
  imports Complex_Main "HOL-Library.Sublist"
begin

section \<open>Python strings and lists\<close>

text \<open>
  \<^verbatim>\<open>s.split(sep)\<close> for a separator of one character: the fields between the
  occurrences of the separator, empty fields included; the result is never empty.
\<close>

fun str_split :: "char \<Rightarrow> string \<Rightarrow> string list" where
  "str_split sep [] = [[]]"
| "str_split sep (c # cs) =
     (if c = sep then [] # str_split sep cs
      else (case str_split sep cs of [] \<Rightarrow> [[c]] | w # ws \<Rightarrow> (c # w) # ws))"

text \<open>\<^verbatim>\<open>sep.join(ws)\<close>.\<close>

fun str_join :: "string \<Rightarrow> string list \<Rightarrow> string" where
  "str_join sep [] = []"
| "str_join sep [w] = w"
| "str_join sep (w # v # ws) = w @ sep @ str_join sep (v # ws)"

datatype error =
    External string
  | IndexError
  | KeyError string
  | NameError string

text \<open>\<^verbatim>\<open>xs[i]\<close> for a non-negative constant index: IndexError out of range.\<close>

definition item :: "'a list \<Rightarrow> nat \<Rightarrow> error + 'a" where
  "item xs i = (if i < length xs then Inr (xs ! i) else Inl IndexError)"

text \<open>
  \<^verbatim>\<open>d[k]\<close> on a dict, kept as the list of its items: KeyError when the key is absent.
\<close>

definition getitem :: "(string \<times> 'v) list \<Rightarrow> string \<Rightarrow> error + 'v" where
  "getitem d k = (case map_of d k of None \<Rightarrow> Inl (KeyError k) | Some v \<Rightarrow> Inr v)"

section \<open>pathlib paths (POSIX flavour)\<close>

text \<open>
  A path is its anchor (\<open>''''\<close> for a relative path, \<open>''/''\<close> or \<open>''//''\<close>) and its
  components. Parsing a string drops empty components and \<open>.\<close>, keeps \<open>..\<close>.
\<close>

datatype path = Path (anchor: string) (parts: "string list")

definition posix_root :: "string \<Rightarrow> string" where
  "posix_root s =
     (if take 1 s \<noteq> ''/'' then ''''
      else if take 1 (drop 1 s) \<noteq> ''/'' \<or> take 1 (drop 2 s) = ''/'' then ''/''
      else ''//'')"

definition PurePath :: "string \<Rightarrow> path" where
  "PurePath s =
     Path (posix_root s) (filter (\<lambda>w. w \<noteq> [] \<and> w \<noteq> ''.'') (str_split CHR ''/'' s))"

text \<open>
  \<^verbatim>\<open>p / s\<close>: the string is parsed; when it is absolute it replaces \<open>p\<close>, otherwise its
  components are appended.
\<close>

definition joinpath :: "path \<Rightarrow> string \<Rightarrow> path" where
  "joinpath p s =
     (let q = PurePath s
      in if anchor q \<noteq> [] then q else Path (anchor p) (parts p @ parts q))"

text \<open>\<^verbatim>\<open>p.name\<close>: the last component, the empty string when there is none.\<close>

definition path_name :: "path \<Rightarrow> string" where
  "path_name p = (if parts p = [] then [] else last (parts p))"

section \<open>Data frames\<close>

text \<open>
  A frame is its column names and its rows, each row aligned with the columns; a cell
  is \<open>None\<close> where pandas has NaN. The row labels play no part: the manifest is
  written with \<^verbatim>\<open>index=False\<close>.
\<close>

type_synonym cell = "string option"

record dataframe =
  columns :: "string list"
  rows :: "cell list list"

text \<open>\<^verbatim>\<open>pd.DataFrame(data, columns=cols)\<close>; \<^verbatim>\<open>pd.DataFrame()\<close> is \<open>DataFrame [] []\<close>.\<close>

definition DataFrame :: "cell list list \<Rightarrow> string list \<Rightarrow> dataframe" where
  "DataFrame data cols = \<lparr>columns = cols, rows = data\<rparr>"

definition reindex :: "string list \<Rightarrow> string list \<Rightarrow> cell list \<Rightarrow> cell list" where
  "reindex cols new_cols r =
     map (\<lambda>c. case map_of (zip cols r) c of None \<Rightarrow> None | Some v \<Rightarrow> v) new_cols"

text \<open>
  \<^verbatim>\<open>pd.concat([a, b])\<close>: the rows of \<open>a\<close>, then those of \<open>b\<close>, over the columns of
  \<open>a\<close> followed by the columns only \<open>b\<close> has.
\<close>

definition pd_concat :: "dataframe \<Rightarrow> dataframe \<Rightarrow> dataframe" where
  "pd_concat a b =
     (let cols = columns a @ filter (\<lambda>c. c \<notin> set (columns a)) (columns b)
      in \<lparr>columns = cols,
          rows = map (reindex (columns a) cols) (rows a) @
                 map (reindex (columns b) cols) (rows b)\<rparr>)"

text \<open>The value of a row in a named column.\<close>

definition cell_of :: "dataframe \<Rightarrow> cell list \<Rightarrow> string \<Rightarrow> cell" where
  "cell_of df r c = (case map_of (zip (columns df) r) c of None \<Rightarrow> None | Some v \<Rightarrow> v)"

section \<open>The collaborators and the trace of their calls\<close>

text \<open>A row of the subject/session frame read by \<^verbatim>\<open>load_and_check_tsv\<close>.\<close>

record subject_row =
  participant_id :: string
  session_id :: string
  cohort :: string

datatype image = Image "int list"

datatype pvalue = PathV path | StrV string

type_synonym file_type = "(string \<times> string) list"

text \<open>
  Every call that touches the file system or an image is recorded, in the order the
  calls are made, whether it then succeeds or raises.
\<close>

datatype event =
    CommandlineToJson "(string \<times> pvalue) list"
  | Mkdir path
  | RandomGamma "real \<times> real" path
  | Save path image
  | ToCsv path dataframe
  | WriteMissingMods path dataframe

text \<open>
  The functions the script calls and does not define: clinica, torchio, pathlib, pandas
  and joblib, and clinicadl's own helpers. Each is a function of its arguments that
  returns or raises. \<open>tio_RandomGamma\<close> stands for building the transform with the range
  \<^verbatim>\<open>log_gamma\<close> and applying it to the image read from the path; \<open>joblib_order k n\<close> is
  the order in which a pool of \<open>k\<close> workers runs \<open>n\<close> jobs.
\<close>

record env =
  commandline_to_json :: "(string \<times> pvalue) list \<Rightarrow> error + unit"
  create_caps_dict :: "path \<Rightarrow> bool \<Rightarrow> error + (string \<times> path) list"
  load_and_check_tsv :: "string option \<Rightarrow> (string \<times> path) list \<Rightarrow> path \<Rightarrow> error + subject_row list"
  find_file_type :: "string \<Rightarrow> bool \<Rightarrow> string \<Rightarrow> string \<Rightarrow> error + file_type"
  clinica_file_reader :: "string list \<Rightarrow> string list \<Rightarrow> path \<Rightarrow> file_type \<Rightarrow> error + string list"
  mkdir :: "path \<Rightarrow> error + unit"
  tio_RandomGamma :: "real \<times> real \<Rightarrow> path \<Rightarrow> error + image"
  save :: "image \<Rightarrow> path \<Rightarrow> error + unit"
  to_csv :: "dataframe \<Rightarrow> path \<Rightarrow> error + unit"
  write_missing_mods :: "path \<Rightarrow> dataframe \<Rightarrow> error + unit"
  joblib_order :: "int \<Rightarrow> nat \<Rightarrow> nat list"

text \<open>A computation returns or raises, and leaves the trace of the calls it made.\<close>

type_synonym 'a res = "(error + 'a) \<times> event list"

definition ret :: "'a \<Rightarrow> 'a res" where
  "ret x = (Inr x, [])"

definition raise :: "error \<Rightarrow> 'a res" where
  "raise e = (Inl e, [])"

definition lift :: "error + 'a \<Rightarrow> 'a res" where
  "lift r = (r, [])"

definition call :: "event \<Rightarrow> error + 'a \<Rightarrow> 'a res" where
  "call ev r = (r, [ev])"

definition bind :: "'a res \<Rightarrow> ('a \<Rightarrow> 'b res) \<Rightarrow> 'b res" where
  "bind m f =
     (case m of
        (Inl e, l) \<Rightarrow> (Inl e, l)
      | (Inr x, l) \<Rightarrow> (case f x of (r, l') \<Rightarrow> (r, l @ l')))"

section \<open>generate\_contrast\_dataset\<close>

record args =
  caps_directory :: path
  output_dir :: path
  n_proc :: int
  tsv_path :: "string option"
  preprocessing :: string
  multi_cohort :: bool
  uncropped_image :: bool
  tracer :: string
  suvr_reference_region :: string
  gamma :: "real list"

text \<open>The subject label: \<^verbatim>\<open>participant_id.split("-")[1]\<close>.\<close>

definition subject_id_of :: "string \<Rightarrow> error + string" where
  "subject_id_of pid = item (str_split CHR ''-'' pid) 1"

text \<open>\<^verbatim>\<open>"_".join(input_filename.split("_")[2::])\<close>.\<close>

definition filename_pattern_of :: "string \<Rightarrow> string" where
  "filename_pattern_of input_filename =
     str_join ''_'' (drop 2 (str_split CHR ''_'' input_filename))"

definition contrast_image_nii_dir :: "args \<Rightarrow> string \<Rightarrow> string \<Rightarrow> path" where
  "contrast_image_nii_dir a subject_id ses =
     joinpath (joinpath (joinpath (joinpath (output_dir a) ''subjects'')
       (''sub-CONT'' @ subject_id)) ses) (preprocessing a)"

definition contrast_image_nii_filename :: "string \<Rightarrow> string \<Rightarrow> string \<Rightarrow> string" where
  "contrast_image_nii_filename subject_id ses filename_pattern =
     ''sub-CONT'' @ subject_id @ ''_'' @ ses @ ''_'' @ filename_pattern"

text \<open>The list \<^verbatim>\<open>columns\<close> of the output frame.\<close>

definition manifest_columns :: "string list" where
  "manifest_columns = [''participant_id'', ''session_id'', ''diagnosis'']"

text \<open>
  \<^verbatim>\<open>data_df.loc[data_idx]\<close> on the frame as \<^verbatim>\<open>load_and_check_tsv\<close> returns it, its rows
  labelled \<open>0, 1, ...\<close>: KeyError for a label that is not there.
\<close>

definition loc :: "subject_row list \<Rightarrow> nat \<Rightarrow> error + subject_row" where
  "loc data_df data_idx =
     (if data_idx < length data_df then Inr (data_df ! data_idx)
      else Inl (KeyError ''data_idx''))"

text \<open>
  The job of one row (the closure \<^verbatim>\<open>create_contrast_image\<close>); \<open>a\<close>, \<open>caps_dict\<close>,
  \<open>data_df\<close> and \<open>file_type\<close> are the variables it closes over.
\<close>

definition create_contrast_image ::
  "env \<Rightarrow> args \<Rightarrow> (string \<times> path) list \<Rightarrow> subject_row list \<Rightarrow> file_type \<Rightarrow>
   nat \<Rightarrow> dataframe \<Rightarrow> dataframe res" where
  "create_contrast_image E a caps_dict data_df file_type data_idx output_df =
     bind (lift (loc data_df data_idx)) (\<lambda>r.
     bind (lift (getitem caps_dict (cohort r))) (\<lambda>caps.
     bind (lift (clinica_file_reader E [participant_id r] [session_id r] caps file_type))
       (\<lambda>found.
     bind (lift (item found 0)) (\<lambda>found0.
     let image_path = PurePath found0;
         input_filename = path_name image_path;
         filename_pattern = filename_pattern_of input_filename
     in
     bind (lift (subject_id_of (participant_id r))) (\<lambda>subject_id.
     let nii_dir = contrast_image_nii_dir a subject_id (session_id r);
         nii_filename = contrast_image_nii_filename subject_id (session_id r) filename_pattern
     in
     bind (call (Mkdir nii_dir) (mkdir E nii_dir)) (\<lambda>_.
     bind (lift (item (gamma a) 0)) (\<lambda>g0.
     bind (lift (item (gamma a) 1)) (\<lambda>g1.
     bind (call (RandomGamma (g0, g1) image_path) (tio_RandomGamma E (g0, g1) image_path))
       (\<lambda>contrast_image.
     bind (call (Save (joinpath nii_dir nii_filename) contrast_image)
             (save E contrast_image (joinpath nii_dir nii_filename))) (\<lambda>_.
     let row = [Some (''sub-CONT'' @ subject_id), Some (session_id r), Some ''contrast''];
         row_df = DataFrame [row] manifest_columns
     in ret (pd_concat output_df row_df)))))))))))"

text \<open>
  \<^verbatim>\<open>Parallel(n_jobs=k)(delayed(job)(i) for i in range(n))\<close>: the jobs run in the order
  of the pool, the first one that raises ends the run, and the results come back in the
  order of the indices.
\<close>

fun run_jobs :: "(nat \<Rightarrow> 'a res) \<Rightarrow> nat list \<Rightarrow> (nat \<times> 'a) list res" where
  "run_jobs job [] = ret []"
| "run_jobs job (i # is) =
     bind (job i) (\<lambda>x. bind (run_jobs job is) (\<lambda>xs. ret ((i, x) # xs)))"

definition Parallel :: "env \<Rightarrow> int \<Rightarrow> (nat \<Rightarrow> 'a res) \<Rightarrow> nat \<Rightarrow> 'a list res" where
  "Parallel E k job n =
     bind (run_jobs job (joblib_order E k n)) (\<lambda>finished.
     ret (List.map_filter (map_of finished) [0..<n]))"

text \<open>
  Lines 61 to 83: the record of the parameters, the CAPS dictionary, the frame of
  subjects and sessions, the directory \<^verbatim>\<open>subjects\<close> and the file type.
\<close>

definition read_inputs ::
  "env \<Rightarrow> args \<Rightarrow> ((string \<times> path) list \<times> subject_row list \<times> file_type) res" where
  "read_inputs E a =
     (let params = [(''output_dir'', PathV (output_dir a)),
                    (''caps_dir'', PathV (caps_directory a)),
                    (''preprocessing'', StrV (preprocessing a))]
      in
      bind (call (CommandlineToJson params) (commandline_to_json E params)) (\<lambda>_.
      bind (lift (create_caps_dict E (caps_directory a) (multi_cohort a))) (\<lambda>caps_dict.
      bind (lift (load_and_check_tsv E (tsv_path a) caps_dict (output_dir a))) (\<lambda>data_df.
      bind (call (Mkdir (joinpath (output_dir a) ''subjects''))
              (mkdir E (joinpath (output_dir a) ''subjects''))) (\<lambda>_.
      bind (lift (find_file_type E (preprocessing a) (uncropped_image a) (tracer a)
              (suvr_reference_region a))) (\<lambda>file_type.
      ret (caps_dict, data_df, file_type)))))))"

text \<open>The loop that puts each result in front of the frame built so far.\<close>

definition concat_results :: "dataframe list \<Rightarrow> dataframe" where
  "concat_results results_df =
     fold (\<lambda>result output_df. pd_concat result output_df) results_df (DataFrame [] [])"

text \<open>Lines 61 to 135: everything up to the report of missing modalities.\<close>

definition generate_contrast_files :: "env \<Rightarrow> args \<Rightarrow> unit res" where
  "generate_contrast_files E a =
     bind (read_inputs E a) (\<lambda>(caps_dict, data_df, file_type).
     bind (Parallel E (n_proc a)
             (\<lambda>data_idx. create_contrast_image E a caps_dict data_df file_type data_idx
                (DataFrame [] manifest_columns))
             (length data_df)) (\<lambda>results_df.
     let output_df = concat_results results_df
     in
     bind (call (ToCsv (joinpath (output_dir a) ''data.tsv'') output_df)
             (to_csv E output_df (joinpath (output_dir a) ''data.tsv''))) (\<lambda>_.
     call (WriteMissingMods (output_dir a) output_df)
       (write_missing_mods E (output_dir a) output_df))))"

text \<open>
  The whole function: after the report it calls \<^verbatim>\<open>logger.info\<close>, and the module binds
  no name \<^verbatim>\<open>logger\<close> (it imports \<^verbatim>\<open>getLogger\<close> and never calls it), so the lookup
  raises NameError.
\<close>

definition generate_contrast_dataset :: "env \<Rightarrow> args \<Rightarrow> unit res" where
  "generate_contrast_dataset E a =
     bind (generate_contrast_files E a) (\<lambda>_. raise (NameError ''logger''))"

section \<open>Notions the properties are stated with\<close>


text \<open>The pool runs each of the \<open>n\<close> jobs once, in whatever order.\<close>

definition runs_each_once :: "env \<Rightarrow> int \<Rightarrow> nat \<Rightarrow> bool" where
  "runs_each_once E k n =
     (distinct (joblib_order E k n) \<and> set (joblib_order E k n) = {0..<n})"

text \<open>The tables written, in the order of the calls.\<close>

fun tables :: "event list \<Rightarrow> (path \<times> dataframe) list" where
  "tables [] = []"
| "tables (ToCsv p df # evs) = (p, df) # tables evs"
| "tables (ev # evs) = tables evs"

text \<open>The calls a job makes.\<close>

fun job_event :: "event \<Rightarrow> bool" where
  "job_event (Mkdir p) = True"
| "job_event (RandomGamma g p) = True"
| "job_event (Save p i) = True"
| "job_event ev = False"

fun is_save :: "event \<Rightarrow> bool" where
  "is_save (Save p i) = True"
| "is_save ev = False"


text \<open>
  The text of a string after its first hyphen, and the text between its first hyphen
  and the next one (or the end).
\<close>

definition after_first_hyphen :: "string \<Rightarrow> string" where
  "after_first_hyphen s = drop 1 (dropWhile (\<lambda>c. c \<noteq> CHR ''-'') s)"

definition second_field :: "string \<Rightarrow> string" where
  "second_field s = takeWhile (\<lambda>c. c \<noteq> CHR ''-'') (after_first_hyphen s)"

text \<open>The row of the manifest that stands for a row of the input.\<close>

definition manifest_row :: "subject_row \<Rightarrow> cell list" where
  "manifest_row r =
     [Some (''sub-CONT'' @ second_field (participant_id r)), Some (session_id r),
      Some ''contrast'']"

text \<open>
  Resolving \<open>..\<close> in the components of a path, as \<^verbatim>\<open>os.path.normpath\<close> does: a component
  and the \<open>..\<close> after it go away together, \<open>..\<close> at the root stays at the root, and a
  relative path keeps the \<open>..\<close> it begins with. Links are not followed.
\<close>

definition up :: "bool \<Rightarrow> string list \<Rightarrow> string \<Rightarrow> string list" where
  "up absolute acc c =
     (if c \<noteq> ''..'' then acc @ [c]
      else if acc = [] then (if absolute then [] else [c])
      else if last acc = ''..'' then acc @ [c]
      else butlast acc)"

definition resolved :: "path \<Rightarrow> string list" where
  "resolved p = foldl (up (anchor p \<noteq> [])) [] (parts p)"

text \<open>
  \<open>contained p d\<close>: once \<open>..\<close> is resolved, \<open>p\<close> is \<open>d\<close> or a path that goes down from \<open>d\<close>;
  \<open>inside p d\<close>: it goes down from \<open>d\<close> and is not \<open>d\<close> itself.
\<close>

definition contained :: "path \<Rightarrow> path \<Rightarrow> bool" where
  "contained p d =
     (anchor p = anchor d \<and> prefix (resolved d) (resolved p) \<and>
      ''..'' \<notin> set (drop (length (resolved d)) (resolved p)))"






text \<open>A name of one directory entry: not empty, without a slash, neither \<open>.\<close> nor \<open>..\<close>.\<close>

definition component :: "string \<Rightarrow> bool" where
  "component s = (s \<noteq> [] \<and> CHR ''/'' \<notin> set s \<and> s \<noteq> ''.'' \<and> s \<noteq> ''..'')"

text \<open>
  The directory and the file name the specification gives for an input row:
  \<^verbatim>\<open>output_dir/subjects/sub-CONT<id>/<session>/<preprocessing>\<close> read with the \<^verbatim>\<open>/\<close> of
  pathlib, and \<^verbatim>\<open>sub-CONT<id>_<session>_<suffix>\<close>, where \<^verbatim>\<open><id>\<close> is the second field
  of the participant and \<^verbatim>\<open><suffix>\<close> is the name of the input image without its first
  two fields between underscores.
\<close>

definition expected_dir :: "args \<Rightarrow> subject_row \<Rightarrow> path" where
  "expected_dir a r =
     joinpath (joinpath (joinpath (joinpath (output_dir a) ''subjects'')
       (''sub-CONT'' @ second_field (participant_id r))) (session_id r)) (preprocessing a)"

definition expected_name :: "subject_row \<Rightarrow> string \<Rightarrow> string" where
  "expected_name r input_name =
     ''sub-CONT'' @ second_field (participant_id r) @ ''_'' @ session_id r @ ''_'' @
     str_join ''_'' (drop 2 (str_split CHR ''_'' input_name))"

section \<open>Jobs that share the world\<close>

text \<open>
  For the question of what the jobs share, the collaborators are taken together with
  the world they act on: the file system, the generator of random numbers, whatever
  else a call reads or changes. A call returns or raises, and leaves the world changed.
  \<open>joblib_steps k n\<close> is the order in which a pool of \<open>k\<close> workers lets \<open>n\<close> jobs advance.
\<close>

record 'w world =
  commandline_to_json_in :: "(string \<times> pvalue) list \<Rightarrow> 'w \<Rightarrow> (error + unit) \<times> 'w"
  create_caps_dict_in :: "path \<Rightarrow> bool \<Rightarrow> 'w \<Rightarrow> (error + (string \<times> path) list) \<times> 'w"
  load_and_check_tsv_in ::
    "string option \<Rightarrow> (string \<times> path) list \<Rightarrow> path \<Rightarrow> 'w \<Rightarrow> (error + subject_row list) \<times> 'w"
  find_file_type_in :: "string \<Rightarrow> bool \<Rightarrow> string \<Rightarrow> string \<Rightarrow> 'w \<Rightarrow> (error + file_type) \<times> 'w"
  clinica_file_reader_in ::
    "string list \<Rightarrow> string list \<Rightarrow> path \<Rightarrow> file_type \<Rightarrow> 'w \<Rightarrow> (error + string list) \<times> 'w"
  mkdir_in :: "path \<Rightarrow> 'w \<Rightarrow> (error + unit) \<times> 'w"
  tio_RandomGamma_in :: "real \<times> real \<Rightarrow> path \<Rightarrow> 'w \<Rightarrow> (error + image) \<times> 'w"
  save_in :: "image \<Rightarrow> path \<Rightarrow> 'w \<Rightarrow> (error + unit) \<times> 'w"
  to_csv_in :: "dataframe \<Rightarrow> path \<Rightarrow> 'w \<Rightarrow> (error + unit) \<times> 'w"
  write_missing_mods_in :: "path \<Rightarrow> dataframe \<Rightarrow> 'w \<Rightarrow> (error + unit) \<times> 'w"
  joblib_steps :: "int \<Rightarrow> nat \<Rightarrow> nat list"

text \<open>
  A computation as the calls it makes, one after the other: it has returned, or it
  has raised, or it is about to make a call and goes on with the answer.
\<close>

datatype 'a prog =
    Return 'a
  | Raise error
  | Call_commandline_to_json "(string \<times> pvalue) list" "'a prog"
  | Call_create_caps_dict path bool "(string \<times> path) list \<Rightarrow> 'a prog"
  | Call_load_and_check_tsv "string option" "(string \<times> path) list" path
      "subject_row list \<Rightarrow> 'a prog"
  | Call_find_file_type string bool string string "file_type \<Rightarrow> 'a prog"
  | Call_clinica_file_reader "string list" "string list" path file_type
      "string list \<Rightarrow> 'a prog"
  | Call_mkdir path "'a prog"
  | Call_tio_RandomGamma "real \<times> real" path "image \<Rightarrow> 'a prog"
  | Call_save image path "'a prog"
  | Call_to_csv dataframe path "'a prog"
  | Call_write_missing_mods path dataframe "'a prog"

text \<open>A value computed without a call: the computation goes on with it, or raises.\<close>

definition proceed :: "error + 'b \<Rightarrow> ('b \<Rightarrow> 'a prog) \<Rightarrow> 'a prog" where
  "proceed r k = (case r of Inl e \<Rightarrow> Raise e | Inr x \<Rightarrow> k x)"

text \<open>The world and the trace of the calls made so far.\<close>

type_synonym 'w state = "'w \<times> event list"

text \<open>
  The answer of the world to a call: the computation raises, or goes on with the
  answer; the events are added to the trace either way.
\<close>

definition answered ::
  "(error + 'b) \<times> 'w \<Rightarrow> event list \<Rightarrow> ('b \<Rightarrow> 'a prog) \<Rightarrow> 'a prog \<times> 'w state" where
  "answered r tr k =
     (case r of (Inl e, w') \<Rightarrow> (Raise e, (w', tr)) | (Inr x, w') \<Rightarrow> (k x, (w', tr)))"

text \<open>One call of a computation.\<close>

fun step :: "'w world \<Rightarrow> 'a prog \<Rightarrow> 'w state \<Rightarrow> 'a prog \<times> 'w state" where
  "step W (Return x) s = (Return x, s)"
| "step W (Raise e) s = (Raise e, s)"
| "step W (Call_commandline_to_json ps k) (w, tr) =
     answered (commandline_to_json_in W ps w) (tr @ [CommandlineToJson ps]) (\<lambda>_. k)"
| "step W (Call_create_caps_dict p m k) (w, tr) =
     answered (create_caps_dict_in W p m w) tr k"
| "step W (Call_load_and_check_tsv t d out k) (w, tr) =
     answered (load_and_check_tsv_in W t d out w) tr k"
| "step W (Call_find_file_type p u t r k) (w, tr) =
     answered (find_file_type_in W p u t r w) tr k"
| "step W (Call_clinica_file_reader subs sess caps ft k) (w, tr) =
     answered (clinica_file_reader_in W subs sess caps ft w) tr k"
| "step W (Call_mkdir p k) (w, tr) =
     answered (mkdir_in W p w) (tr @ [Mkdir p]) (\<lambda>_. k)"
| "step W (Call_tio_RandomGamma g p k) (w, tr) =
     answered (tio_RandomGamma_in W g p w) (tr @ [RandomGamma g p]) k"
| "step W (Call_save img p k) (w, tr) =
     answered (save_in W img p w) (tr @ [Save p img]) (\<lambda>_. k)"
| "step W (Call_to_csv df p k) (w, tr) =
     answered (to_csv_in W df p w) (tr @ [ToCsv p df]) (\<lambda>_. k)"
| "step W (Call_write_missing_mods p df k) (w, tr) =
     answered (write_missing_mods_in W p df w) (tr @ [WriteMissingMods p df]) (\<lambda>_. k)"

text \<open>A computation run to its end, nothing else touching the world meanwhile.\<close>

primrec exec :: "'w world \<Rightarrow> 'a prog \<Rightarrow> 'w state \<Rightarrow> (error + 'a) \<times> 'w state" where
  "exec W (Return x) = (\<lambda>s. (Inr x, s))"
| "exec W (Raise e) = (\<lambda>s. (Inl e, s))"
| "exec W (Call_commandline_to_json ps k) = (\<lambda>(w, tr).
     case commandline_to_json_in W ps w of
       (Inl e, w') \<Rightarrow> (Inl e, (w', tr @ [CommandlineToJson ps]))
     | (Inr x, w') \<Rightarrow> exec W k (w', tr @ [CommandlineToJson ps]))"
| "exec W (Call_create_caps_dict p m k) = (\<lambda>(w, tr).
     case create_caps_dict_in W p m w of
       (Inl e, w') \<Rightarrow> (Inl e, (w', tr))
     | (Inr x, w') \<Rightarrow> exec W (k x) (w', tr))"
| "exec W (Call_load_and_check_tsv t d out k) = (\<lambda>(w, tr).
     case load_and_check_tsv_in W t d out w of
       (Inl e, w') \<Rightarrow> (Inl e, (w', tr))
     | (Inr x, w') \<Rightarrow> exec W (k x) (w', tr))"
| "exec W (Call_find_file_type p u t r k) = (\<lambda>(w, tr).
     case find_file_type_in W p u t r w of
       (Inl e, w') \<Rightarrow> (Inl e, (w', tr))
     | (Inr x, w') \<Rightarrow> exec W (k x) (w', tr))"
| "exec W (Call_clinica_file_reader subs sess caps ft k) = (\<lambda>(w, tr).
     case clinica_file_reader_in W subs sess caps ft w of
       (Inl e, w') \<Rightarrow> (Inl e, (w', tr))
     | (Inr x, w') \<Rightarrow> exec W (k x) (w', tr))"
| "exec W (Call_mkdir p k) = (\<lambda>(w, tr).
     case mkdir_in W p w of
       (Inl e, w') \<Rightarrow> (Inl e, (w', tr @ [Mkdir p]))
     | (Inr x, w') \<Rightarrow> exec W k (w', tr @ [Mkdir p]))"
| "exec W (Call_tio_RandomGamma g p k) = (\<lambda>(w, tr).
     case tio_RandomGamma_in W g p w of
       (Inl e, w') \<Rightarrow> (Inl e, (w', tr @ [RandomGamma g p]))
     | (Inr x, w') \<Rightarrow> exec W (k x) (w', tr @ [RandomGamma g p]))"
| "exec W (Call_save img p k) = (\<lambda>(w, tr).
     case save_in W img p w of
       (Inl e, w') \<Rightarrow> (Inl e, (w', tr @ [Save p img]))
     | (Inr x, w') \<Rightarrow> exec W k (w', tr @ [Save p img]))"
| "exec W (Call_to_csv df p k) = (\<lambda>(w, tr).
     case to_csv_in W df p w of
       (Inl e, w') \<Rightarrow> (Inl e, (w', tr @ [ToCsv p df]))
     | (Inr x, w') \<Rightarrow> exec W k (w', tr @ [ToCsv p df]))"
| "exec W (Call_write_missing_mods p df k) = (\<lambda>(w, tr).
     case write_missing_mods_in W p df w of
       (Inl e, w') \<Rightarrow> (Inl e, (w', tr @ [WriteMissingMods p df]))
     | (Inr x, w') \<Rightarrow> exec W k (w', tr @ [WriteMissingMods p df]))"

text \<open>The job of one row, call by call (the closure \<^verbatim>\<open>create_contrast_image\<close>).\<close>

definition create_contrast_image_prog ::
  "args \<Rightarrow> (string \<times> path) list \<Rightarrow> subject_row list \<Rightarrow> file_type \<Rightarrow>
   nat \<Rightarrow> dataframe \<Rightarrow> dataframe prog" where
  "create_contrast_image_prog a caps_dict data_df file_type data_idx output_df =
     proceed (loc data_df data_idx) (\<lambda>r.
     proceed (getitem caps_dict (cohort r)) (\<lambda>caps.
     Call_clinica_file_reader [participant_id r] [session_id r] caps file_type (\<lambda>found.
     proceed (item found 0) (\<lambda>found0.
     let image_path = PurePath found0;
         input_filename = path_name image_path;
         filename_pattern = filename_pattern_of input_filename
     in
     proceed (subject_id_of (participant_id r)) (\<lambda>subject_id.
     let nii_dir = contrast_image_nii_dir a subject_id (session_id r);
         nii_filename = contrast_image_nii_filename subject_id (session_id r) filename_pattern
     in
     Call_mkdir nii_dir (
     proceed (item (gamma a) 0) (\<lambda>g0.
     proceed (item (gamma a) 1) (\<lambda>g1.
     Call_tio_RandomGamma (g0, g1) image_path (\<lambda>contrast_image.
     Call_save contrast_image (joinpath nii_dir nii_filename) (
     let row = [Some (''sub-CONT'' @ subject_id), Some (session_id r), Some ''contrast''];
         row_df = DataFrame [row] manifest_columns
     in Return (pd_concat output_df row_df)))))))))))"

text \<open>
  \<^verbatim>\<open>Parallel(n_jobs=k)(jobs)\<close> in a shared world: the pool lets the jobs advance one call
  at a time, job \<open>i\<close> making its next call each time \<open>i\<close> comes up in \<open>joblib_steps\<close>, and
  then lets each job run to its end, in the order of the indices. A pool that runs the
  jobs one after the other has no steps of the first kind. The first call that raises
  ends the run; the results come back in the order of the indices.
\<close>

fun raised :: "'a prog \<Rightarrow> error option" where
  "raised (Raise e) = Some e"
| "raised p = None"

fun run_steps ::
  "'w world \<Rightarrow> 'a prog list \<Rightarrow> nat list \<Rightarrow> 'w state \<Rightarrow> (error + 'a prog list) \<times> 'w state" where
  "run_steps W jobs [] s = (Inr jobs, s)"
| "run_steps W jobs (i # sch) s =
     (if i < length jobs then
        (case step W (jobs ! i) s of (p, s') \<Rightarrow>
           (case raised p of
              Some e \<Rightarrow> (Inl e, s')
            | None \<Rightarrow> run_steps W (jobs[i := p]) sch s'))
      else run_steps W jobs sch s)"

fun finish :: "'w world \<Rightarrow> 'a prog list \<Rightarrow> 'w state \<Rightarrow> (error + 'a list) \<times> 'w state" where
  "finish W [] s = (Inr [], s)"
| "finish W (p # ps) s =
     (case exec W p s of
        (Inl e, s') \<Rightarrow> (Inl e, s')
      | (Inr x, s') \<Rightarrow>
          (case finish W ps s' of
             (Inl e, s'') \<Rightarrow> (Inl e, s'')
           | (Inr xs, s'') \<Rightarrow> (Inr (x # xs), s'')))"

definition Parallel_in ::
  "'w world \<Rightarrow> int \<Rightarrow> 'a prog list \<Rightarrow> 'w state \<Rightarrow> (error + 'a list) \<times> 'w state" where
  "Parallel_in W k jobs s =
     (case run_steps W jobs (joblib_steps W k (length jobs)) s of
        (Inl e, s') \<Rightarrow> (Inl e, s')
      | (Inr ps, s') \<Rightarrow> finish W ps s')"

text \<open>Lines 61 to 83, call by call.\<close>

definition read_inputs_prog ::
  "args \<Rightarrow> ((string \<times> path) list \<times> subject_row list \<times> file_type) prog" where
  "read_inputs_prog a =
     (let params = [(''output_dir'', PathV (output_dir a)),
                    (''caps_dir'', PathV (caps_directory a)),
                    (''preprocessing'', StrV (preprocessing a))]
      in
      Call_commandline_to_json params (
      Call_create_caps_dict (caps_directory a) (multi_cohort a) (\<lambda>caps_dict.
      Call_load_and_check_tsv (tsv_path a) caps_dict (output_dir a) (\<lambda>data_df.
      Call_mkdir (joinpath (output_dir a) ''subjects'') (
      Call_find_file_type (preprocessing a) (uncropped_image a) (tracer a)
        (suvr_reference_region a) (\<lambda>file_type.
      Return (caps_dict, data_df, file_type)))))))"

text \<open>Lines 129 to 137: the table, the report, and the name that is not bound.\<close>

definition write_outputs_prog :: "args \<Rightarrow> dataframe list \<Rightarrow> unit prog" where
  "write_outputs_prog a results_df =
     (let output_df = concat_results results_df
      in
      Call_to_csv output_df (joinpath (output_dir a) ''data.tsv'') (
      Call_write_missing_mods (output_dir a) output_df (
      Raise (NameError ''logger''))))"

text \<open>The whole function in a shared world.\<close>

definition generate_contrast_dataset_in ::
  "'w world \<Rightarrow> args \<Rightarrow> 'w state \<Rightarrow> (error + unit) \<times> 'w state" where
  "generate_contrast_dataset_in W a s =
     (case exec W (read_inputs_prog a) s of
        (Inl e, s1) \<Rightarrow> (Inl e, s1)
      | (Inr (caps_dict, data_df, file_type), s1) \<Rightarrow>
          (case Parallel_in W (n_proc a)
                  (map (\<lambda>data_idx. create_contrast_image_prog a caps_dict data_df file_type
                          data_idx (DataFrame [] manifest_columns))
                     [0..<length data_df]) s1 of
             (Inl e, s2) \<Rightarrow> (Inl e, s2)
           | (Inr results_df, s2) \<Rightarrow> exec W (write_outputs_prog a results_df) s2))"


text \<open>
  The collaborators of the first model, which answer from their arguments alone, as a
  world that no call changes.
\<close>

definition world_of :: "env \<Rightarrow> 'w world" where
  "world_of E =
     \<lparr>commandline_to_json_in = (\<lambda>ps w. (commandline_to_json E ps, w)),
      create_caps_dict_in = (\<lambda>p m w. (create_caps_dict E p m, w)),
      load_and_check_tsv_in = (\<lambda>t d out w. (load_and_check_tsv E t d out, w)),
      find_file_type_in = (\<lambda>p u t s w. (find_file_type E p u t s, w)),
      clinica_file_reader_in = (\<lambda>subs sess caps ft w.
        (clinica_file_reader E subs sess caps ft, w)),
      mkdir_in = (\<lambda>p w. (mkdir E p, w)),
      tio_RandomGamma_in = (\<lambda>g p w. (tio_RandomGamma E g p, w)),
      save_in = (\<lambda>i p w. (save E i p, w)),
      to_csv_in = (\<lambda>d p w. (to_csv E d p, w)),
      write_missing_mods_in = (\<lambda>p d w. (write_missing_mods E p d, w)),
      joblib_steps = (\<lambda>k n. [])\<rparr>"

section \<open>A small laboratory\<close>

text \<open>
  Collaborators that always succeed, for running the model on concrete inputs: the
  lookup answers with the image of the subject and session in a CAPS tree under
  \<open>/caps\<close>, and a pool of one worker runs the jobs in order, any other pool in reverse.
\<close>

definition lab_env :: "subject_row list \<Rightarrow> env" where
  "lab_env rs =
     \<lparr>commandline_to_json = (\<lambda>_. Inr ()),
      create_caps_dict = (\<lambda>p m. Inr [(''single'', p)]),
      load_and_check_tsv = (\<lambda>t d out. Inr rs),
      find_file_type = (\<lambda>p u t s. Inr [(''pattern'', ''*T1w.nii.gz'')]),
      clinica_file_reader = (\<lambda>subs sess caps ft.
        Inr [''/caps/subjects/'' @ concat subs @ ''/'' @ concat sess @ ''/t1_linear/'' @
             concat subs @ ''_'' @ concat sess @ ''_space-MNI_T1w.nii.gz'']),
      mkdir = (\<lambda>_. Inr ()),
      tio_RandomGamma = (\<lambda>g p. Inr (Image [])),
      save = (\<lambda>i p. Inr ()),
      to_csv = (\<lambda>d p. Inr ()),
      write_missing_mods = (\<lambda>p d. Inr ()),
      joblib_order = (\<lambda>k n. if k = 1 then [0..<n] else rev [0..<n])\<rparr>"

definition lab_args :: "path \<Rightarrow> path \<Rightarrow> int \<Rightarrow> real list \<Rightarrow> args" where
  "lab_args caps out k g =
     \<lparr>caps_directory = caps, output_dir = out, n_proc = k, tsv_path = None,
      preprocessing = ''t1-linear'', multi_cohort = False, uncropped_image = False,
      tracer = ''fdg'', suvr_reference_region = ''pons'', gamma = g\<rparr>"

definition lab_caps :: path where
  "lab_caps = Path ''/'' [''caps'']"

definition lab_out :: path where
  "lab_out = Path ''/'' [''out'']"

definition lab_rows :: "subject_row list" where
  "lab_rows =
     [\<lparr>participant_id = ''sub-01'', session_id = ''ses-M00'', cohort = ''single''\<rparr>,
      \<lparr>participant_id = ''sub-02'', session_id = ''ses-M06'', cohort = ''single''\<rparr>]"

text \<open>A participant whose name has two hyphens, and a session named by an absolute path.\<close>

definition lab_rows_two_hyphens :: "subject_row list" where
  "lab_rows_two_hyphens =
     [\<lparr>participant_id = ''sub-A-1'', session_id = ''ses-M00'', cohort = ''single''\<rparr>]"

definition lab_rows_absolute_session :: "subject_row list" where
  "lab_rows_absolute_session =
     [\<lparr>participant_id = ''sub-01'', session_id = ''/caps/ses-M00'', cohort = ''single''\<rparr>]"

text \<open>The same collaborators, except that no image can be saved.\<close>

definition lab_env_disk_full :: env where
  "lab_env_disk_full = (lab_env lab_rows)\<lparr>save := (\<lambda>i p. Inl (External ''disk full''))\<rparr>"



section \<open>Computations and their traces\<close>


lemma bind_Inr_iff:
  "bind m f = (Inr y, l) \<longleftrightarrow> (\<exists>x l1 l2. m = (Inr x, l1) \<and> f x = (Inr y, l2) \<and> l = l1 @ l2)"
  by (auto simp: bind_def split: prod.splits sum.splits)

lemma bind_Inl_iff:
  "bind m f = (Inl e, l) \<longleftrightarrow>
     (m = (Inl e, l) \<or> (\<exists>x l1 l2. m = (Inr x, l1) \<and> f x = (Inl e, l2) \<and> l = l1 @ l2))"
  by (auto simp: bind_def split: prod.splits sum.splits)

lemma lift_eq: "lift r = (x, l) \<longleftrightarrow> r = x \<and> l = []"
  by (auto simp: lift_def)

lemma call_eq: "call ev r = (x, l) \<longleftrightarrow> r = x \<and> l = [ev]"
  by (auto simp: call_def)

lemma ret_eq: "ret v = (x, l) \<longleftrightarrow> x = Inr v \<and> l = []"
  by (auto simp: ret_def)

lemma create_contrast_image_Inr:
  assumes "create_contrast_image E a cd data_df ft i odf = (Inr d, l)"
  shows "\<exists>caps found found0 sid g0 g1 img.
     i < length data_df \<and>
     getitem cd (cohort (data_df ! i)) = Inr caps \<and>
     clinica_file_reader E [participant_id (data_df ! i)] [session_id (data_df ! i)] caps ft
       = Inr found \<and>
     item found 0 = Inr found0 \<and>
     subject_id_of (participant_id (data_df ! i)) = Inr sid \<and>
     item (gamma a) 0 = Inr g0 \<and> item (gamma a) 1 = Inr g1 \<and>
     mkdir E (contrast_image_nii_dir a sid (session_id (data_df ! i))) = Inr () \<and>
     tio_RandomGamma E (g0, g1) (PurePath found0) = Inr img \<and>
     save E img (joinpath (contrast_image_nii_dir a sid (session_id (data_df ! i)))
        (contrast_image_nii_filename sid (session_id (data_df ! i))
           (filename_pattern_of (path_name (PurePath found0))))) = Inr () \<and>
     l = [Mkdir (contrast_image_nii_dir a sid (session_id (data_df ! i))),
          RandomGamma (g0, g1) (PurePath found0),
          Save (joinpath (contrast_image_nii_dir a sid (session_id (data_df ! i)))
            (contrast_image_nii_filename sid (session_id (data_df ! i))
               (filename_pattern_of (path_name (PurePath found0))))) img] \<and>
     d = pd_concat odf
           (DataFrame [[Some (''sub-CONT'' @ sid), Some (session_id (data_df ! i)),
              Some ''contrast'']] manifest_columns)"
  using assms unfolding create_contrast_image_def
  by (auto simp: bind_Inr_iff lift_eq call_eq ret_eq Let_def loc_def split: if_splits)

lemma create_contrast_image_trace:
  assumes "ev \<in> set (snd (create_contrast_image E a cd data_df ft i odf))"
  shows "\<exists>sid found0 g img.
     i < length data_df \<and>
     subject_id_of (participant_id (data_df ! i)) = Inr sid \<and>
     (ev = Mkdir (contrast_image_nii_dir a sid (session_id (data_df ! i))) \<or>
      ev = RandomGamma g (PurePath found0) \<or>
      ev = Save (joinpath (contrast_image_nii_dir a sid (session_id (data_df ! i)))
            (contrast_image_nii_filename sid (session_id (data_df ! i))
               (filename_pattern_of (path_name (PurePath found0))))) img)"
  using assms unfolding create_contrast_image_def
  by (auto simp: bind_def lift_def call_def ret_def Let_def loc_def
      split: if_splits sum.splits prod.splits)

lemma run_jobs_Inr:
  "run_jobs job is = (Inr xs, l) \<Longrightarrow>
     map fst xs = is \<and> (\<forall>(i, x) \<in> set xs. fst (job i) = Inr x) \<and>
     l = concat (map (\<lambda>i. snd (job i)) is)"
proof (induction "is" arbitrary: xs l)
  case Nil
  then show ?case by (simp add: ret_eq)
next
  case (Cons i "is")
  from Cons.prems obtain x l1 ys l2 where
    j: "job i = (Inr x, l1)" and r: "run_jobs job is = (Inr ys, l2)"
    and xs: "xs = (i, x) # ys" and l: "l = l1 @ l2"
    by (auto simp: bind_Inr_iff ret_eq)
  from Cons.IH [OF r] j xs l show ?case by auto
qed

lemma run_jobs_Inl:
  "run_jobs job is = (Inl e, l) \<Longrightarrow> \<exists>i \<in> set is. fst (job i) = Inl e"
proof (induction "is" arbitrary: l)
  case Nil
  then show ?case by (simp add: ret_eq)
next
  case (Cons i "is")
  then show ?case by (auto simp: bind_Inl_iff ret_eq)
qed

lemma run_jobs_all_ok:
  "\<forall>i \<in> set is. \<exists>x. fst (job i) = Inr x \<Longrightarrow> \<exists>xs. fst (run_jobs job is) = Inr xs"
proof (induction "is")
  case Nil
  then show ?case by (simp add: ret_def)
next
  case (Cons i "is")
  then obtain x xs where "fst (job i) = Inr x" "fst (run_jobs job is) = Inr xs" by auto
  then show ?case
    by (cases "job i"; cases "run_jobs job is") (auto simp: bind_def ret_def)
qed

lemma run_jobs_trace:
  "ev \<in> set (snd (run_jobs job is)) \<Longrightarrow> \<exists>i \<in> set is. ev \<in> set (snd (job i))"
proof (induction "is")
  case Nil
  then show ?case by (simp add: ret_def)
next
  case (Cons i "is")
  then show ?case
    by (cases "job i"; cases "run_jobs job is")
       (auto simp: bind_def ret_def split: sum.splits)
qed

lemma Parallel_Inr:
  assumes "Parallel E k job n = (Inr results, l)" and "runs_each_once E k n"
  shows "length results = n \<and> (\<forall>i < n. fst (job i) = Inr (results ! i)) \<and>
     l = concat (map (\<lambda>i. snd (job i)) (joblib_order E k n))"
proof -
  from assms(1) obtain xs where
    r: "run_jobs job (joblib_order E k n) = (Inr xs, l)"
    and res: "results = List.map_filter (map_of xs) [0..<n]"
    by (auto simp: Parallel_def bind_Inr_iff ret_eq)
  from run_jobs_Inr [OF r] have
    keys: "map fst xs = joblib_order E k n"
    and ok: "\<forall>(i, x) \<in> set xs. fst (job i) = Inr x"
    and l: "l = concat (map (\<lambda>i. snd (job i)) (joblib_order E k n))" by auto
  have dom: "\<And>i. i < n \<Longrightarrow> \<exists>x. map_of xs i = Some x \<and> fst (job i) = Inr x"
  proof -
    fix i assume "i < n"
    with assms(2) keys have "i \<in> fst ` set xs"
      by (metis runs_each_once_def atLeastLessThan_iff le0 set_map)
    then obtain x where "map_of xs i = Some x"
      by (metis domD dom_map_of_conv_image_fst)
    moreover from this ok have "fst (job i) = Inr x"
      by (auto dest: map_of_SomeD)
    ultimately show "\<exists>x. map_of xs i = Some x \<and> fst (job i) = Inr x" by blast
  qed
  have flt: "filter (\<lambda>i. map_of xs i \<noteq> None) [0..<n] = [0..<n]"
    using dom by (fastforce simp: filter_id_conv)
  have res': "results = map (\<lambda>i. the (map_of xs i)) [0..<n]"
    by (simp only: res List.map_filter_def flt comp_def)
  have "\<forall>i < n. fst (job i) = Inr (results ! i)"
    using dom by (fastforce simp: res')
  with res' l show ?thesis by simp
qed

lemma Parallel_Inl:
  "Parallel E k job n = (Inl e, l) \<Longrightarrow> \<exists>i \<in> set (joblib_order E k n). fst (job i) = Inl e"
  by (auto simp: Parallel_def bind_Inl_iff ret_eq dest: run_jobs_Inl)

lemma Parallel_Inl_trace:
  "Parallel E k job n = (Inl e, l) \<Longrightarrow> ev \<in> set l \<Longrightarrow> 
     \<exists>i \<in> set (joblib_order E k n). ev \<in> set (snd (job i))"
  using run_jobs_trace [of ev job "joblib_order E k n"]
  by (auto simp: Parallel_def bind_Inl_iff ret_eq)

lemma Parallel_trace:
  "ev \<in> set (snd (Parallel E k job n)) \<Longrightarrow> 
     \<exists>i \<in> set (joblib_order E k n). ev \<in> set (snd (job i))"
  using run_jobs_trace [of ev job "joblib_order E k n"]
  by (cases "run_jobs job (joblib_order E k n)")
     (auto simp: Parallel_def bind_def ret_def split: sum.splits)

section \<open>Strings, frames and the steps before the jobs\<close>


lemma str_split_not_Nil: "str_split c s \<noteq> []"
  by (induction s) (auto split: list.splits)

lemma hd_str_split: "hd (str_split c s) = takeWhile (\<lambda>x. x \<noteq> c) s"
  by (induction s) (auto split: list.splits simp: str_split_not_Nil)

lemma tl_str_split:
  "tl (str_split c s) =
     (if c \<in> set s then str_split c (drop 1 (dropWhile (\<lambda>x. x \<noteq> c) s)) else [])"
  by (induction s) (auto split: list.splits simp: str_split_not_Nil)

lemma length_str_split: "1 < length (str_split c s) \<longleftrightarrow> c \<in> set s"
proof -
  have "length (str_split c s) = Suc (length (tl (str_split c s)))"
    using str_split_not_Nil [of c s] by (cases "str_split c s") auto
  then show ?thesis
    by (simp add: tl_str_split str_split_not_Nil)
qed

lemma subject_id_of_Inr:
  "subject_id_of pid = Inr sid \<longleftrightarrow> CHR ''-'' \<in> set pid \<and> sid = second_field pid"
proof -
  have nth1: "str_split CHR ''-'' pid ! 1 = hd (tl (str_split CHR ''-'' pid))"
    if "1 < length (str_split CHR ''-'' pid)"
    using that by (cases "str_split CHR ''-'' pid"; cases "tl (str_split CHR ''-'' pid)") auto
  show ?thesis
    using length_str_split [of "CHR ''-''" pid] nth1
    by (auto simp: subject_id_of_def item_def second_field_def after_first_hyphen_def
        tl_str_split hd_str_split)
qed

lemma subject_id_of_Inl:
  "subject_id_of pid = Inl e \<longleftrightarrow> CHR ''-'' \<notin> set pid \<and> e = IndexError"
  using length_str_split [of "CHR ''-''" pid]
  by (auto simp: subject_id_of_def item_def)

lemma reindex_manifest:
  "reindex manifest_columns manifest_columns [x, y, z] = [x, y, z]"
  by (simp add: reindex_def manifest_columns_def)

lemma first_frame:
  "pd_concat (DataFrame [] manifest_columns) (DataFrame [[x, y, z]] manifest_columns) =
     \<lparr>columns = manifest_columns, rows = [[x, y, z]]\<rparr>"
  by (simp add: pd_concat_def DataFrame_def reindex_manifest)

lemma next_frame:
  assumes "\<forall>r \<in> set rs. length r = 3"
  shows "pd_concat \<lparr>columns = manifest_columns, rows = [[x, y, z]]\<rparr>
           \<lparr>columns = manifest_columns, rows = rs\<rparr> =
         \<lparr>columns = manifest_columns, rows = [x, y, z] # rs\<rparr>"
proof -
  have "reindex manifest_columns manifest_columns r = r" if "r \<in> set rs" for r
  proof -
    from that assms have "length r = 3" by simp
    then obtain u v w where "r = [u, v, w]"
      by (cases r; cases "tl r"; cases "tl (tl r)") auto
    then show ?thesis by (simp add: reindex_manifest)
  qed
  then have "map (reindex manifest_columns manifest_columns) rs = rs"
    by (simp add: map_idI)
  then show ?thesis
    by (simp add: pd_concat_def reindex_manifest)
qed

lemma last_frame:
  "pd_concat \<lparr>columns = manifest_columns, rows = [[x, y, z]]\<rparr> (DataFrame [] []) =
     \<lparr>columns = manifest_columns, rows = [[x, y, z]]\<rparr>"
  by (simp add: pd_concat_def DataFrame_def reindex_manifest)

lemma fold_frames:
  assumes "\<forall>r \<in> set rs. length r = 3" and "\<forall>r \<in> set acc. length r = 3"
  shows "fold (\<lambda>result output_df. pd_concat result output_df)
           (map (\<lambda>r. \<lparr>columns = manifest_columns, rows = [r]\<rparr>) rs)
           \<lparr>columns = manifest_columns, rows = acc\<rparr> =
         \<lparr>columns = manifest_columns, rows = rev rs @ acc\<rparr>"
  using assms
proof (induction rs arbitrary: acc)
  case Nil
  then show ?case by simp
next
  case (Cons r rs)
  from Cons.prems have "length r = 3" by simp
  then obtain x y z where r: "r = [x, y, z]"
    by (cases r; cases "tl r"; cases "tl (tl r)") auto
  have step: "pd_concat \<lparr>columns = manifest_columns, rows = [r]\<rparr>
           \<lparr>columns = manifest_columns, rows = acc\<rparr> =
         \<lparr>columns = manifest_columns, rows = r # acc\<rparr>"
    unfolding r using Cons.prems(2) by (rule next_frame)
  have "\<forall>q \<in> set (r # acc). length q = 3" using Cons.prems by simp
  with Cons.IH [of "r # acc"] Cons.prems(1) step show ?case by simp
qed

lemma concat_results_rows:
  assumes "\<forall>r \<in> set rs. length r = 3"
  shows "concat_results (map (\<lambda>r. \<lparr>columns = manifest_columns, rows = [r]\<rparr>) rs) =
     \<lparr>columns = (if rs = [] then [] else manifest_columns), rows = rev rs\<rparr>"
proof (cases rs)
  case Nil
  then show ?thesis by (simp add: concat_results_def DataFrame_def)
next
  case (Cons r rs')
  from assms Cons have "length r = 3" by simp
  then obtain x y z where r: "r = [x, y, z]"
    by (cases r; cases "tl r"; cases "tl (tl r)") auto
  have first: "pd_concat \<lparr>columns = manifest_columns, rows = [r]\<rparr> (DataFrame [] []) =
      \<lparr>columns = manifest_columns, rows = [r]\<rparr>"
    unfolding r by (rule last_frame)
  have "\<forall>q \<in> set rs'. length q = 3" "\<forall>q \<in> set [r]. length q = 3"
    using assms Cons by simp_all
  from fold_frames [OF this] first show ?thesis
    by (simp add: concat_results_def Cons)
qed

lemma read_inputs_Inr:
  assumes "read_inputs E a = (Inr (cd, data_df, ft), l0)"
  shows "l0 = [CommandlineToJson [(''output_dir'', PathV (output_dir a)),
                  (''caps_dir'', PathV (caps_directory a)),
                  (''preprocessing'', StrV (preprocessing a))],
               Mkdir (joinpath (output_dir a) ''subjects'')] \<and>
     commandline_to_json E [(''output_dir'', PathV (output_dir a)),
                  (''caps_dir'', PathV (caps_directory a)),
                  (''preprocessing'', StrV (preprocessing a))] = Inr () \<and>
     create_caps_dict E (caps_directory a) (multi_cohort a) = Inr cd \<and>
     load_and_check_tsv E (tsv_path a) cd (output_dir a) = Inr data_df \<and>
     mkdir E (joinpath (output_dir a) ''subjects'') = Inr () \<and>
     find_file_type E (preprocessing a) (uncropped_image a) (tracer a)
       (suvr_reference_region a) = Inr ft"
  using assms unfolding read_inputs_def
  by (auto simp: bind_Inr_iff lift_eq call_eq ret_eq Let_def)

lemma read_inputs_trace:
  assumes "ev \<in> set (snd (read_inputs E a))"
  shows "ev = CommandlineToJson [(''output_dir'', PathV (output_dir a)),
                  (''caps_dir'', PathV (caps_directory a)),
                  (''preprocessing'', StrV (preprocessing a))] \<or>
         ev = Mkdir (joinpath (output_dir a) ''subjects'')"
  using assms unfolding read_inputs_def
  by (auto simp: bind_def lift_def call_def ret_def Let_def
      split: if_splits sum.splits prod.splits)

section \<open>A run that writes the manifest\<close>


lemma job_frame:
  assumes "create_contrast_image E a cd data_df ft i (DataFrame [] manifest_columns) = (Inr d, l)"
  shows "i < length data_df \<and>
     d = \<lparr>columns = manifest_columns, rows = [manifest_row (data_df ! i)]\<rparr>"
  using create_contrast_image_Inr [OF assms]
  by (auto simp: first_frame manifest_row_def subject_id_of_Inr)

lemma files_Inr:
  assumes ri: "read_inputs E a = (Inr (cd, data_df, ft), l0)"
    and pool: "runs_each_once E (n_proc a) (length data_df)"
    and ok: "generate_contrast_files E a = (Inr u, l)"
  shows "(\<forall>i < length data_df. \<exists>l'.
        create_contrast_image E a cd data_df ft i (DataFrame [] manifest_columns) =
          (Inr \<lparr>columns = manifest_columns, rows = [manifest_row (data_df ! i)]\<rparr>, l')) \<and>
     l = l0 @
         concat (map (\<lambda>i. snd (create_contrast_image E a cd data_df ft i
                   (DataFrame [] manifest_columns)))
           (joblib_order E (n_proc a) (length data_df))) @
         [ToCsv (joinpath (output_dir a) ''data.tsv'')
            \<lparr>columns = (if data_df = [] then [] else manifest_columns),
             rows = rev (map manifest_row data_df)\<rparr>,
          WriteMissingMods (output_dir a)
            \<lparr>columns = (if data_df = [] then [] else manifest_columns),
             rows = rev (map manifest_row data_df)\<rparr>] \<and>
     to_csv E \<lparr>columns = (if data_df = [] then [] else manifest_columns),
             rows = rev (map manifest_row data_df)\<rparr>
        (joinpath (output_dir a) ''data.tsv'') = Inr () \<and>
     write_missing_mods E (output_dir a)
        \<lparr>columns = (if data_df = [] then [] else manifest_columns),
             rows = rev (map manifest_row data_df)\<rparr> = Inr ()"
proof -
  let ?job = "\<lambda>i. create_contrast_image E a cd data_df ft i (DataFrame [] manifest_columns)"
  let ?n = "length data_df"
  from ok ri obtain results l1 where
    par: "Parallel E (n_proc a) ?job ?n = (Inr results, l1)"
    and csv: "to_csv E (concat_results results) (joinpath (output_dir a) ''data.tsv'') = Inr ()"
    and mods: "write_missing_mods E (output_dir a) (concat_results results) = Inr ()"
    and l: "l = l0 @ l1 @ [ToCsv (joinpath (output_dir a) ''data.tsv'') (concat_results results),
          WriteMissingMods (output_dir a) (concat_results results)]"
    unfolding generate_contrast_files_def
    by (auto simp: bind_Inr_iff call_eq Let_def)
  from Parallel_Inr [OF par pool] have
    len: "length results = ?n"
    and each: "\<forall>i < ?n. fst (?job i) = Inr (results ! i)"
    and l1: "l1 = concat (map (\<lambda>i. snd (?job i)) (joblib_order E (n_proc a) ?n))"
    by auto
  have frame: "?job i = (Inr \<lparr>columns = manifest_columns,
      rows = [manifest_row (data_df ! i)]\<rparr>, snd (?job i)) \<and>
      results ! i = \<lparr>columns = manifest_columns, rows = [manifest_row (data_df ! i)]\<rparr>"
    if "i < ?n" for i
  proof -
    from each that have "?job i = (Inr (results ! i), snd (?job i))"
      by (metis prod.collapse)
    from job_frame [OF this] this show ?thesis by simp
  qed
  have "results = map (\<lambda>r. \<lparr>columns = manifest_columns, rows = [r]\<rparr>)
      (map manifest_row data_df)"
    using len frame by (auto intro!: nth_equalityI)
  moreover have "\<forall>r \<in> set (map manifest_row data_df). length r = 3"
    by (auto simp: manifest_row_def)
  ultimately have res: "concat_results results =
      \<lparr>columns = (if data_df = [] then [] else manifest_columns),
       rows = rev (map manifest_row data_df)\<rparr>"
    using concat_results_rows [of "map manifest_row data_df"] by simp
  from frame have "\<forall>i < ?n. \<exists>l'. ?job i =
      (Inr \<lparr>columns = manifest_columns, rows = [manifest_row (data_df ! i)]\<rparr>, l')"
    by blast
  with l l1 csv mods res show ?thesis by simp
qed


lemma dataset_trace: "snd (generate_contrast_dataset E a) = snd (generate_contrast_files E a)"
  by (cases "generate_contrast_files E a")
     (auto simp: generate_contrast_dataset_def bind_def raise_def split: sum.splits)

lemma dataset_result:
  "fst (generate_contrast_dataset E a) =
     (case fst (generate_contrast_files E a) of
        Inl e \<Rightarrow> Inl e | Inr u \<Rightarrow> Inl (NameError ''logger''))"
  by (cases "generate_contrast_files E a")
     (auto simp: generate_contrast_dataset_def bind_def raise_def split: sum.splits)

lemma tables_append: "tables (xs @ ys) = tables xs @ tables ys"
  by (induction xs rule: tables.induct) auto

lemma tables_jobs: "\<forall>ev \<in> set l. job_event ev \<Longrightarrow> tables l = []"
  by (induction l rule: tables.induct) auto

lemma job_events:
  "ev \<in> set (snd (create_contrast_image E a cd data_df ft i odf)) \<Longrightarrow> job_event ev"
  by (auto dest!: create_contrast_image_trace)

lemma lab_read:
  "read_inputs (lab_env lab_rows) (lab_args lab_caps lab_out k g) =
     (Inr ([(''single'', lab_caps)], lab_rows, [(''pattern'', ''*T1w.nii.gz'')]),
      [CommandlineToJson [(''output_dir'', PathV lab_out), (''caps_dir'', PathV lab_caps),
         (''preprocessing'', StrV ''t1-linear'')],
       Mkdir (Path ''/'' [''out'', ''subjects''])])"
  by (simp add: read_inputs_def lab_env_def lab_args_def bind_def call_def lift_def ret_def
      joinpath_def PurePath_def posix_root_def lab_out_def)

lemma lab_pool: "runs_each_once (lab_env rs) k n"
  by (auto simp: runs_each_once_def lab_env_def)


lemma lab_files_ok:
  "fst (generate_contrast_files (lab_env lab_rows) (lab_args lab_caps lab_out 1 [- 0.2, - 0.05]))
     = Inr ()"
  by code_simp

section \<open>Whatever table is written\<close>


lemma run_jobs_results:
  "run_jobs job is = (Inr xs, l) \<Longrightarrow> (i, x) \<in> set xs \<Longrightarrow> fst (job i) = Inr x"
  by (drule run_jobs_Inr) auto

lemma Parallel_results:
  assumes "Parallel E k job n = (Inr results, l)" and "x \<in> set results"
  shows "\<exists>i. fst (job i) = Inr x"
proof -
  from assms(1) obtain xs where
    r: "run_jobs job (joblib_order E k n) = (Inr xs, l)"
    and res: "results = List.map_filter (map_of xs) [0..<n]"
    by (auto simp: Parallel_def bind_Inr_iff ret_eq)
  from assms(2) res obtain i where "map_of xs i = Some x"
    by (auto simp: List.map_filter_def)
  then have "(i, x) \<in> set xs" by (rule map_of_SomeD)
  with r show ?thesis by (blast dest: run_jobs_results)
qed

lemma in_tables: "(p, df) \<in> set (tables l) \<longleftrightarrow> ToCsv p df \<in> set l"
  by (induction l rule: tables.induct) auto

lemma tables_none: "\<forall>ev \<in> set l. \<forall>p df. ev \<noteq> ToCsv p df \<Longrightarrow> tables l = []"
  by (induction l rule: tables.induct) auto

lemma tables_read_inputs: "tables (snd (read_inputs E a)) = []"
  by (rule tables_none) (auto dest: read_inputs_trace)

lemma tables_Parallel_jobs:
  "tables (snd (Parallel E k
     (\<lambda>i. create_contrast_image E' a cd data_df ft i odf) n)) = []"
  by (rule tables_none) (auto dest!: Parallel_trace job_events)

lemma files_table_results:
  assumes "(p, df) \<in> set (tables (snd (generate_contrast_files E a)))"
  shows "\<exists>cd data_df ft results l1. fst (read_inputs E a) = Inr (cd, data_df, ft) \<and>
     Parallel E (n_proc a)
       (\<lambda>i. create_contrast_image E a cd data_df ft i (DataFrame [] manifest_columns))
       (length data_df) = (Inr results, l1) \<and>
     p = joinpath (output_dir a) ''data.tsv'' \<and> df = concat_results results"
proof (cases "read_inputs E a")
  case (Pair r0 l0)
  show ?thesis
  proof (cases r0)
    case (Inl e)
    with Pair have "snd (generate_contrast_files E a) = snd (read_inputs E a)"
      by (simp add: generate_contrast_files_def bind_def)
    with assms show ?thesis by (simp add: tables_read_inputs)
  next
    case (Inr inp)
    obtain cd data_df ft where inp: "inp = (cd, data_df, ft)" by (cases inp)
    let ?job = "\<lambda>i. create_contrast_image E a cd data_df ft i (DataFrame [] manifest_columns)"
    let ?par = "Parallel E (n_proc a) ?job (length data_df)"
    have t0: "tables l0 = []" using tables_read_inputs [of E a] Pair by simp
    have t1: "tables (snd ?par) = []" by (rule tables_Parallel_jobs)
    show ?thesis
    proof (cases ?par)
      case (Pair r1 l1)
      show ?thesis
      proof (cases r1)
        case (Inl e)
        with Pair \<open>read_inputs E a = (r0, l0)\<close> Inr inp
        have "snd (generate_contrast_files E a) = l0 @ l1"
          by (simp add: generate_contrast_files_def bind_def)
        with assms t0 t1 Pair show ?thesis by (simp add: tables_append)
      next
        case (Inr results)
        from Pair Inr \<open>read_inputs E a = (r0, l0)\<close> \<open>r0 = Inr inp\<close> inp
        have "tables (snd (generate_contrast_files E a)) =
            [(joinpath (output_dir a) ''data.tsv'', concat_results results)]"
          using t0 t1
          by (cases "to_csv E (concat_results results) (joinpath (output_dir a) ''data.tsv'')")
             (simp_all add: generate_contrast_files_def bind_def call_def Let_def tables_append)
        with assms Pair Inr \<open>read_inputs E a = (r0, l0)\<close> \<open>r0 = Inr inp\<close> inp
        show ?thesis by auto
      qed
    qed
  qed
qed

lemma files_table:
  assumes "(p, df) \<in> set (tables (snd (generate_contrast_files E a)))"
  shows "\<exists>cd data_df ft rs. fst (read_inputs E a) = Inr (cd, data_df, ft) \<and>
     p = joinpath (output_dir a) ''data.tsv'' \<and>
     set rs \<subseteq> manifest_row ` set data_df \<and>
     df = \<lparr>columns = (if rs = [] then [] else manifest_columns), rows = rev rs\<rparr>"
proof -
  from files_table_results [OF assms] obtain cd data_df ft results l1 where
    ri: "fst (read_inputs E a) = Inr (cd, data_df, ft)"
    and par: "Parallel E (n_proc a)
       (\<lambda>i. create_contrast_image E a cd data_df ft i (DataFrame [] manifest_columns))
       (length data_df) = (Inr results, l1)"
    and p: "p = joinpath (output_dir a) ''data.tsv''"
    and df: "df = concat_results results" by blast
  let ?job = "\<lambda>i. create_contrast_image E a cd data_df ft i (DataFrame [] manifest_columns)"
  have each: "\<exists>x \<in> set data_df. d = \<lparr>columns = manifest_columns,
      rows = [manifest_row x]\<rparr>" if "d \<in> set results" for d
  proof -
    from Parallel_results [OF par that] obtain i where "fst (?job i) = Inr d" by blast
    then have "?job i = (Inr d, snd (?job i))" by (metis prod.collapse)
    from job_frame [OF this] show ?thesis by auto
  qed
  define rs where "rs = map (\<lambda>d. hd (rows d)) results"
  have one: "d = \<lparr>columns = manifest_columns, rows = [hd (rows d)]\<rparr>"
    if "d \<in> set results" for d
    using each [OF that] by auto
  have res: "results = map (\<lambda>r. \<lparr>columns = manifest_columns, rows = [r]\<rparr>) rs"
    unfolding rs_def using one by (simp add: map_idI comp_def)
  have sub: "set rs \<subseteq> manifest_row ` set data_df"
    unfolding rs_def using each by fastforce
  then have "\<forall>r \<in> set rs. length r = 3"
    by (auto simp: manifest_row_def)
  then have "concat_results results =
      \<lparr>columns = (if rs = [] then [] else manifest_columns), rows = rev rs\<rparr>"
    unfolding res by (rule concat_results_rows)
  with ri p df sub show ?thesis by blast
qed

lemma files_table_ordered:
  assumes "fst (read_inputs E a) = Inr (cd, data_df, ft)"
    and "runs_each_once E (n_proc a) (length data_df)"
    and "(p, df) \<in> set (tables (snd (generate_contrast_files E a)))"
  shows "p = joinpath (output_dir a) ''data.tsv'' \<and>
     df = \<lparr>columns = (if data_df = [] then [] else manifest_columns),
           rows = rev (map manifest_row data_df)\<rparr>"
proof -
  let ?job = "\<lambda>i. create_contrast_image E a cd data_df ft i (DataFrame [] manifest_columns)"
  from files_table_results [OF assms(3)] assms(1) obtain results l1 where
    par: "Parallel E (n_proc a) ?job (length data_df) = (Inr results, l1)"
    and p: "p = joinpath (output_dir a) ''data.tsv''"
    and df: "df = concat_results results" by auto
  from Parallel_Inr [OF par assms(2)] have
    len: "length results = length data_df"
    and each: "\<forall>i < length data_df. fst (?job i) = Inr (results ! i)" by auto
  have "results ! i = \<lparr>columns = manifest_columns, rows = [manifest_row (data_df ! i)]\<rparr>"
    if "i < length data_df" for i
  proof -
    from each that have "?job i = (Inr (results ! i), snd (?job i))"
      by (metis prod.collapse)
    from job_frame [OF this] show ?thesis by simp
  qed
  with len have "results = map (\<lambda>r. \<lparr>columns = manifest_columns, rows = [r]\<rparr>)
      (map manifest_row data_df)"
    by (auto intro!: nth_equalityI)
  moreover have "\<forall>r \<in> set (map manifest_row data_df). length r = 3"
    by (auto simp: manifest_row_def)
  ultimately have "concat_results results =
      \<lparr>columns = (if data_df = [] then [] else manifest_columns),
       rows = rev (map manifest_row data_df)\<rparr>"
    using concat_results_rows [of "map manifest_row data_df"] by simp
  with p df show ?thesis by simp
qed

lemma lab_tables:
  "tables (snd (generate_contrast_dataset (lab_env lab_rows)
      (lab_args lab_caps lab_out 1 [- 0.2, - 0.05]))) =
   [(Path ''/'' [''out'', ''data.tsv''],
     \<lparr>columns = [''participant_id'', ''session_id'', ''diagnosis''],
      rows = [[Some ''sub-CONT02'', Some ''ses-M06'', Some ''contrast''],
              [Some ''sub-CONT01'', Some ''ses-M00'', Some ''contrast'']]\<rparr>)]"
  by code_simp

section \<open>The manifest has one row for each input row\<close>

text \<open>
  Claim C1. When the inputs are read, the pool runs each job once and every step up to
  the report of missing modalities returns, the run writes exactly one table, at
  \<^verbatim>\<open>output_dir / "data.tsv"\<close>; it has as many rows as the frame of subjects and
  sessions, its rows are the rows that stand for the input rows, and the job of each
  input row returns a frame of exactly that one row.
\<close>

theorem manifest_row_count:
  assumes "fst (read_inputs E a) = Inr (cd, data_df, ft)"
    and "runs_each_once E (n_proc a) (length data_df)"
    and "fst (generate_contrast_files E a) = Inr ()"
  shows "\<exists>df. tables (snd (generate_contrast_dataset E a)) =
            [(joinpath (output_dir a) ''data.tsv'', df)] \<and>
          length (rows df) = length data_df \<and>
          set (rows df) = manifest_row ` set data_df \<and>
          (\<forall>i < length data_df. \<exists>d.
             fst (create_contrast_image E a cd data_df ft i (DataFrame [] manifest_columns)) =
               Inr d \<and> rows d = [manifest_row (data_df ! i)])"
proof -
  let ?job = "\<lambda>i. create_contrast_image E a cd data_df ft i (DataFrame [] manifest_columns)"
  let ?df = "\<lparr>columns = (if data_df = [] then [] else manifest_columns),
             rows = rev (map manifest_row data_df)\<rparr>"
  from assms(1) have ri: "read_inputs E a = (Inr (cd, data_df, ft), snd (read_inputs E a))"
    by (metis prod.collapse)
  from assms(3) have ok: "generate_contrast_files E a = (Inr (), snd (generate_contrast_files E a))"
    by (metis prod.collapse)
  note f = files_Inr [OF ri assms(2) ok]
  from f have jobs: "\<forall>i < length data_df. \<exists>l'. ?job i =
      (Inr \<lparr>columns = manifest_columns, rows = [manifest_row (data_df ! i)]\<rparr>, l')"
    by blast
  from f have tr: "snd (generate_contrast_files E a) = snd (read_inputs E a) @
      concat (map (\<lambda>i. snd (?job i)) (joblib_order E (n_proc a) (length data_df))) @
      [ToCsv (joinpath (output_dir a) ''data.tsv'') ?df, WriteMissingMods (output_dir a) ?df]"
    by blast
  have t0: "tables (snd (read_inputs E a)) = []"
    using read_inputs_Inr [OF ri] by auto
  have t1: "tables (concat (map (\<lambda>i. snd (?job i))
      (joblib_order E (n_proc a) (length data_df)))) = []"
    by (rule tables_jobs) (auto dest: job_events)
  have "tables (snd (generate_contrast_dataset E a)) =
      [(joinpath (output_dir a) ''data.tsv'', ?df)]"
    by (simp add: dataset_trace tr tables_append t0 t1)
  moreover have "\<forall>i < length data_df. \<exists>d. fst (?job i) = Inr d \<and>
      rows d = [manifest_row (data_df ! i)]"
    using jobs by fastforce
  ultimately show ?thesis by (intro exI [of _ ?df]) simp
qed

theorem manifest_row_count_witness:
  "fst (read_inputs (lab_env lab_rows) (lab_args lab_caps lab_out 1 [- 0.2, - 0.05])) =
     Inr ([(''single'', lab_caps)], lab_rows, [(''pattern'', ''*T1w.nii.gz'')]) \<and>
   runs_each_once (lab_env lab_rows) (n_proc (lab_args lab_caps lab_out 1 [- 0.2, - 0.05]))
     (length lab_rows) \<and>
   fst (generate_contrast_files (lab_env lab_rows)
     (lab_args lab_caps lab_out 1 [- 0.2, - 0.05])) = Inr () \<and>
   (\<exists>df. tables (snd (generate_contrast_dataset (lab_env lab_rows)
            (lab_args lab_caps lab_out 1 [- 0.2, - 0.05]))) =
            [(joinpath (output_dir (lab_args lab_caps lab_out 1 [- 0.2, - 0.05]))
                ''data.tsv'', df)] \<and>
          length (rows df) = length lab_rows \<and>
          set (rows df) = manifest_row ` set lab_rows \<and>
          (\<forall>i < length lab_rows. \<exists>d.
             fst (create_contrast_image (lab_env lab_rows)
                   (lab_args lab_caps lab_out 1 [- 0.2, - 0.05])
                   [(''single'', lab_caps)] lab_rows [(''pattern'', ''*T1w.nii.gz'')] i
                   (DataFrame [] manifest_columns)) = Inr d \<and>
             rows d = [manifest_row (lab_rows ! i)]))"
proof -
  let ?E = "lab_env lab_rows" and ?a = "lab_args lab_caps lab_out 1 [- 0.2, - 0.05]"
  have h1: "fst (read_inputs ?E ?a) =
     Inr ([(''single'', lab_caps)], lab_rows, [(''pattern'', ''*T1w.nii.gz'')])"
    by (simp only: lab_read fst_conv)
  have h2: "runs_each_once ?E (n_proc ?a) (length lab_rows)"
    by (rule lab_pool)
  have h3: "fst (generate_contrast_files ?E ?a) = Inr ()"
    by (rule lab_files_ok)
  show ?thesis
    by (intro conjI h1 h2 h3 manifest_row_count [OF h1 h2 h3])
qed

section \<open>The rows of the manifest\<close>


text \<open>
  Claim C9. In every table the run writes, every row has the label \<^verbatim>\<open>contrast\<close> in
  the column \<^verbatim>\<open>diagnosis\<close> and, in the column \<^verbatim>\<open>participant_id\<close>, a name that begins
  with \<^verbatim>\<open>sub-CONT\<close>.
\<close>

theorem manifest_rows_labelled:
  assumes "(p, df) \<in> set (tables (snd (generate_contrast_dataset E a)))"
    and "r \<in> set (rows df)"
  shows "cell_of df r ''diagnosis'' = Some ''contrast'' \<and>
     (\<exists>pid. cell_of df r ''participant_id'' = Some pid \<and> prefix ''sub-CONT'' pid)"
proof -
  from assms(1) have "(p, df) \<in> set (tables (snd (generate_contrast_files E a)))"
    by (simp add: dataset_trace)
  from files_table [OF this] obtain data_df rs where
    sub: "set rs \<subseteq> manifest_row ` set data_df"
    and df: "df = \<lparr>columns = (if rs = [] then [] else manifest_columns), rows = rev rs\<rparr>"
    by blast
  from assms(2) df have "r \<in> set rs" by simp
  then have ne: "rs \<noteq> []" by auto
  from \<open>r \<in> set rs\<close> sub obtain x where r: "r = manifest_row x" by blast
  have cols: "columns df = manifest_columns" using df ne by simp
  have "cell_of df r ''diagnosis'' = Some ''contrast''"
    by (simp add: cell_of_def cols r manifest_row_def manifest_columns_def)
  moreover have "cell_of df r ''participant_id'' =
      Some (''sub-CONT'' @ second_field (participant_id x))"
    by (simp add: cell_of_def cols r manifest_row_def manifest_columns_def)
  ultimately show ?thesis by (simp add: prefix_def)
qed

theorem manifest_rows_labelled_witness:
  "(Path ''/'' [''out'', ''data.tsv''],
     \<lparr>columns = [''participant_id'', ''session_id'', ''diagnosis''],
      rows = [[Some ''sub-CONT02'', Some ''ses-M06'', Some ''contrast''],
              [Some ''sub-CONT01'', Some ''ses-M00'', Some ''contrast'']]\<rparr>)
     \<in> set (tables (snd (generate_contrast_dataset (lab_env lab_rows)
          (lab_args lab_caps lab_out 1 [- 0.2, - 0.05])))) \<and>
   [Some ''sub-CONT02'', Some ''ses-M06'', Some ''contrast'']
     \<in> set (rows \<lparr>columns = [''participant_id'', ''session_id'', ''diagnosis''],
      rows = [[Some ''sub-CONT02'', Some ''ses-M06'', Some ''contrast''],
              [Some ''sub-CONT01'', Some ''ses-M00'', Some ''contrast'']]\<rparr>) \<and>
   (cell_of \<lparr>columns = [''participant_id'', ''session_id'', ''diagnosis''],
      rows = [[Some ''sub-CONT02'', Some ''ses-M06'', Some ''contrast''],
              [Some ''sub-CONT01'', Some ''ses-M00'', Some ''contrast'']]\<rparr>
      [Some ''sub-CONT02'', Some ''ses-M06'', Some ''contrast''] ''diagnosis'' =
        Some ''contrast'' \<and>
    (\<exists>pid. cell_of \<lparr>columns = [''participant_id'', ''session_id'', ''diagnosis''],
      rows = [[Some ''sub-CONT02'', Some ''ses-M06'', Some ''contrast''],
              [Some ''sub-CONT01'', Some ''ses-M00'', Some ''contrast'']]\<rparr>
      [Some ''sub-CONT02'', Some ''ses-M06'', Some ''contrast''] ''participant_id'' =
        Some pid \<and> prefix ''sub-CONT'' pid))"
proof -
  let ?df = "\<lparr>columns = [''participant_id'', ''session_id'', ''diagnosis''],
      rows = [[Some ''sub-CONT02'', Some ''ses-M06'', Some ''contrast''],
              [Some ''sub-CONT01'', Some ''ses-M00'', Some ''contrast'']]\<rparr>"
  have h1: "(Path ''/'' [''out'', ''data.tsv''], ?df)
     \<in> set (tables (snd (generate_contrast_dataset (lab_env lab_rows)
          (lab_args lab_caps lab_out 1 [- 0.2, - 0.05]))))"
    by (simp only: lab_tables list.set insertI1)
  have h2: "[Some ''sub-CONT02'', Some ''ses-M06'', Some ''contrast''] \<in> set (rows ?df)"
    by (simp only: dataframe.simps list.set insertI1)
  show ?thesis
    by (intro conjI h1 h2 manifest_rows_labelled [OF h1 h2])
qed

text \<open>
  Claim C10. When the inputs are read and the pool runs each job once, the rows of any
  table the run writes are the rows that stand for the input rows, in the reverse of
  the input order: the loop puts each result in front of the frame built so far.
\<close>

theorem manifest_reverse_order:
  assumes "fst (read_inputs E a) = Inr (cd, data_df, ft)"
    and "runs_each_once E (n_proc a) (length data_df)"
    and "(p, df) \<in> set (tables (snd (generate_contrast_dataset E a)))"
  shows "rows df = rev (map manifest_row data_df)"
proof -
  from assms(3) have "(p, df) \<in> set (tables (snd (generate_contrast_files E a)))"
    by (simp add: dataset_trace)
  from files_table_ordered [OF assms(1,2) this] show ?thesis by simp
qed

theorem manifest_reverse_order_witness:
  "fst (read_inputs (lab_env lab_rows) (lab_args lab_caps lab_out 1 [- 0.2, - 0.05])) =
     Inr ([(''single'', lab_caps)], lab_rows, [(''pattern'', ''*T1w.nii.gz'')]) \<and>
   runs_each_once (lab_env lab_rows) (n_proc (lab_args lab_caps lab_out 1 [- 0.2, - 0.05]))
     (length lab_rows) \<and>
   (Path ''/'' [''out'', ''data.tsv''],
     \<lparr>columns = [''participant_id'', ''session_id'', ''diagnosis''],
      rows = [[Some ''sub-CONT02'', Some ''ses-M06'', Some ''contrast''],
              [Some ''sub-CONT01'', Some ''ses-M00'', Some ''contrast'']]\<rparr>)
     \<in> set (tables (snd (generate_contrast_dataset (lab_env lab_rows)
          (lab_args lab_caps lab_out 1 [- 0.2, - 0.05])))) \<and>
   rows \<lparr>columns = [''participant_id'', ''session_id'', ''diagnosis''],
      rows = [[Some ''sub-CONT02'', Some ''ses-M06'', Some ''contrast''],
              [Some ''sub-CONT01'', Some ''ses-M00'', Some ''contrast'']]\<rparr> =
     rev (map manifest_row lab_rows)"
proof -
  let ?E = "lab_env lab_rows" and ?a = "lab_args lab_caps lab_out 1 [- 0.2, - 0.05]"
  let ?df = "\<lparr>columns = [''participant_id'', ''session_id'', ''diagnosis''],
      rows = [[Some ''sub-CONT02'', Some ''ses-M06'', Some ''contrast''],
              [Some ''sub-CONT01'', Some ''ses-M00'', Some ''contrast'']]\<rparr>"
  have h1: "fst (read_inputs ?E ?a) =
     Inr ([(''single'', lab_caps)], lab_rows, [(''pattern'', ''*T1w.nii.gz'')])"
    by (simp only: lab_read fst_conv)
  have h2: "runs_each_once ?E (n_proc ?a) (length lab_rows)"
    by (rule lab_pool)
  have h3: "(Path ''/'' [''out'', ''data.tsv''], ?df)
     \<in> set (tables (snd (generate_contrast_dataset ?E ?a)))"
    by (simp only: lab_tables list.set insertI1)
  show ?thesis
    by (intro conjI h1 h2 h3 manifest_reverse_order [OF h1 h2 h3])
qed

section \<open>The calls in the trace of a run\<close>


lemma files_trace:
  assumes "ev \<in> set (snd (generate_contrast_files E a))"
  shows "ev \<in> set (snd (read_inputs E a)) \<or>
     (\<exists>cd data_df ft. fst (read_inputs E a) = Inr (cd, data_df, ft) \<and>
        ((\<exists>i. ev \<in> set (snd (create_contrast_image E a cd data_df ft i
                 (DataFrame [] manifest_columns)))) \<or>
         (\<exists>df. ev = ToCsv (joinpath (output_dir a) ''data.tsv'') df) \<or>
         (\<exists>df. ev = WriteMissingMods (output_dir a) df)))"
proof (cases "read_inputs E a")
  case (Pair r0 l0)
  show ?thesis
  proof (cases r0)
    case (Inl e)
    with Pair have "snd (generate_contrast_files E a) = snd (read_inputs E a)"
      by (simp add: generate_contrast_files_def bind_def)
    with assms show ?thesis by simp
  next
    case (Inr inp)
    obtain cd data_df ft where inp: "inp = (cd, data_df, ft)" by (cases inp)
    let ?job = "\<lambda>i. create_contrast_image E a cd data_df ft i (DataFrame [] manifest_columns)"
    let ?par = "Parallel E (n_proc a) ?job (length data_df)"
    have ri: "fst (read_inputs E a) = Inr (cd, data_df, ft)"
      using Pair Inr inp by simp
    from assms Pair Inr inp have "ev \<in> set l0 \<or> ev \<in> set (snd ?par) \<or>
        (\<exists>df. ev = ToCsv (joinpath (output_dir a) ''data.tsv'') df) \<or>
        (\<exists>df. ev = WriteMissingMods (output_dir a) df)"
      by (cases ?par)
         (auto simp: generate_contrast_files_def bind_def call_def Let_def
           split: sum.splits prod.splits)
    moreover have "\<exists>i. ev \<in> set (snd (?job i))" if "ev \<in> set (snd ?par)"
      using Parallel_trace [OF that] by blast
    ultimately show ?thesis using ri Pair by auto
  qed
qed

lemma item_0: "item xs 0 = Inr x \<longleftrightarrow> xs \<noteq> [] \<and> x = hd xs"
  by (cases xs) (auto simp: item_def)

section \<open>The range handed to the transform\<close>

lemma job_gamma:
  assumes "RandomGamma g p \<in> set (snd (create_contrast_image E a cd data_df ft i odf))"
  shows "item (gamma a) 0 = Inr (fst g) \<and> item (gamma a) 1 = Inr (snd g)"
  using assms unfolding create_contrast_image_def
  by (auto simp: bind_def lift_def call_def ret_def Let_def loc_def
      split: if_splits sum.splits prod.splits)


text \<open>
  Claim C3, as amended. Whenever the run applies the transform, the range it supplies is
  the first two values of the argument \<^verbatim>\<open>gamma\<close>, unchanged; nothing restricts them to
  the range between -1 and 1 that the help text of the option names.
\<close>

theorem gamma_passed_unchecked:
  assumes "RandomGamma g p \<in> set (snd (generate_contrast_dataset E a))"
  shows "2 \<le> length (gamma a) \<and> g = (gamma a ! 0, gamma a ! 1)"
proof -
  from assms have "RandomGamma g p \<in> set (snd (generate_contrast_files E a))"
    by (simp add: dataset_trace)
  from files_trace [OF this] obtain cd data_df ft i where
    "RandomGamma g p \<in> set (snd (create_contrast_image E a cd data_df ft i
       (DataFrame [] manifest_columns)))"
    by (auto dest: read_inputs_trace)
  from job_gamma [OF this] show ?thesis
    by (cases g) (auto simp: item_def split: if_splits)
qed

theorem gamma_passed_unchecked_witness:
  "RandomGamma (- 0.2, - 0.05)
     (Path ''/'' [''caps'', ''subjects'', ''sub-01'', ''ses-M00'', ''t1_linear'',
        ''sub-01_ses-M00_space-MNI_T1w.nii.gz''])
     \<in> set (snd (generate_contrast_dataset (lab_env lab_rows)
          (lab_args lab_caps lab_out 1 [- 0.2, - 0.05]))) \<and>
   (2 \<le> length (gamma (lab_args lab_caps lab_out 1 [- 0.2, - 0.05])) \<and>
    (- 0.2, - 0.05) = (gamma (lab_args lab_caps lab_out 1 [- 0.2, - 0.05]) ! 0,
                      gamma (lab_args lab_caps lab_out 1 [- 0.2, - 0.05]) ! 1))"
proof -
  have h1: "RandomGamma (- 0.2, - 0.05)
     (Path ''/'' [''caps'', ''subjects'', ''sub-01'', ''ses-M00'', ''t1_linear'',
        ''sub-01_ses-M00_space-MNI_T1w.nii.gz''])
     \<in> set (snd (generate_contrast_dataset (lab_env lab_rows)
          (lab_args lab_caps lab_out 1 [- 0.2, - 0.05])))"
    by code_simp
  show ?thesis
    by (intro conjI h1 gamma_passed_unchecked [OF h1])
qed

text \<open>
  The claim as it is written has every value supplied to the transform between -1 and
  1 and an out-of-range pair rejected before any image is processed. With the pair 5
  and 7 every step of the run returns, and the transform is applied with that range.
\<close>

theorem gamma_range_counterexample:
  "fst (generate_contrast_files (lab_env lab_rows) (lab_args lab_caps lab_out 1 [5, 7])) =
     Inr () \<and>
   snd (generate_contrast_dataset (lab_env lab_rows) (lab_args lab_caps lab_out 1 [5, 7])) ! 3 =
     RandomGamma (5, 7)
       (Path ''/'' [''caps'', ''subjects'', ''sub-01'', ''ses-M00'', ''t1_linear'',
          ''sub-01_ses-M00_space-MNI_T1w.nii.gz'']) \<and>
   \<not> (5::real) \<le> 1"
  by code_simp


lemma files_failed_job:
  assumes ri: "fst (read_inputs E a) = Inr (cd, data_df, ft)"
    and pool: "runs_each_once E (n_proc a) (length data_df)"
    and i: "i < length data_df"
    and fails: "fst (create_contrast_image E a cd data_df ft i
                  (DataFrame [] manifest_columns)) = Inl e"
  shows "(\<exists>j < length data_df. \<exists>e'.
        fst (create_contrast_image E a cd data_df ft j (DataFrame [] manifest_columns)) =
          Inl e' \<and>
        fst (generate_contrast_files E a) = Inl e') \<and>
     tables (snd (generate_contrast_files E a)) = []"
proof -
  let ?job = "\<lambda>i. create_contrast_image E a cd data_df ft i (DataFrame [] manifest_columns)"
  let ?par = "Parallel E (n_proc a) ?job (length data_df)"
  from ri obtain l0 where ri': "read_inputs E a = (Inr (cd, data_df, ft), l0)"
    by (cases "read_inputs E a") auto
  obtain r1 l1 where par: "?par = (r1, l1)" by (cases ?par)
  have "\<exists>e'. r1 = Inl e'"
  proof (cases r1)
    case (Inr results)
    with Parallel_Inr [OF _ pool] par i have "fst (?job i) = Inr (results ! i)" by blast
    with fails show ?thesis by simp
  qed simp
  then obtain e' where r1: "r1 = Inl e'" by blast
  from Parallel_Inl [OF par [unfolded r1]] obtain j where
    "j \<in> set (joblib_order E (n_proc a) (length data_df))" "fst (?job j) = Inl e'" by blast
  with pool have j: "j < length data_df" "fst (?job j) = Inl e'"
    by (simp_all add: runs_each_once_def)
  have res: "generate_contrast_files E a = (Inl e', l0 @ l1)"
    using ri' par r1 by (simp add: generate_contrast_files_def bind_def)
  have t0: "tables l0 = []"
    using tables_read_inputs [of E a] ri' by simp
  have "tables l1 = []"
    using tables_Parallel_jobs [of E "n_proc a" E a cd data_df ft "DataFrame [] manifest_columns"
        "length data_df"] par by simp
  with res j t0 show ?thesis
    by (auto simp: tables_append)
qed

section \<open>A job that raises\<close>


lemma lookup_failure_fails_job:
  assumes "i < length data_df"
    and "getitem cd (cohort (data_df ! i)) = Inr caps"
    and "clinica_file_reader E [participant_id (data_df ! i)] [session_id (data_df ! i)]
           caps ft = Inl e"
  shows "fst (create_contrast_image E a cd data_df ft i odf) = Inl e"
  using assms by (simp add: create_contrast_image_def bind_def lift_def loc_def)

lemma transform_failure_fails_job:
  assumes "i < length data_df"
    and "getitem cd (cohort (data_df ! i)) = Inr caps"
    and "clinica_file_reader E [participant_id (data_df ! i)] [session_id (data_df ! i)]
           caps ft = Inr (found0 # found)"
    and "subject_id_of (participant_id (data_df ! i)) = Inr sid"
    and "mkdir E (contrast_image_nii_dir a sid (session_id (data_df ! i))) = Inr ()"
    and "gamma a = g0 # g1 # gs"
    and "tio_RandomGamma E (g0, g1) (PurePath found0) = Inl e"
  shows "fst (create_contrast_image E a cd data_df ft i odf) = Inl e"
  using assms
  by (simp add: create_contrast_image_def bind_def lift_def call_def loc_def item_def Let_def)

lemma save_failure_fails_job:
  assumes "i < length data_df"
    and "getitem cd (cohort (data_df ! i)) = Inr caps"
    and "clinica_file_reader E [participant_id (data_df ! i)] [session_id (data_df ! i)]
           caps ft = Inr (found0 # found)"
    and "subject_id_of (participant_id (data_df ! i)) = Inr sid"
    and "mkdir E (contrast_image_nii_dir a sid (session_id (data_df ! i))) = Inr ()"
    and "gamma a = g0 # g1 # gs"
    and "tio_RandomGamma E (g0, g1) (PurePath found0) = Inr img"
    and "save E img (joinpath (contrast_image_nii_dir a sid (session_id (data_df ! i)))
           (contrast_image_nii_filename sid (session_id (data_df ! i))
              (filename_pattern_of (path_name (PurePath found0))))) = Inl e"
  shows "fst (create_contrast_image E a cd data_df ft i odf) = Inl e"
  using assms
  by (simp add: create_contrast_image_def bind_def lift_def call_def loc_def item_def Let_def)

text \<open>
  Claim C4. When the inputs are read and the pool runs each job once, a job that raises
  makes the whole run raise the error of a job, and no table is written: nothing
  catches the error on the way out of \<^verbatim>\<open>generate_contrast_dataset\<close>. A job raises
  whenever the lookup of the image, the transform (which also reads the image) or the
  saving raises, each being a step of the job with nothing around it.
\<close>

theorem job_failure_propagates:
  assumes "fst (read_inputs E a) = Inr (cd, data_df, ft)"
    and "runs_each_once E (n_proc a) (length data_df)"
    and "i < length data_df"
    and "fst (create_contrast_image E a cd data_df ft i (DataFrame [] manifest_columns)) = Inl e"
  shows "(\<exists>j < length data_df. \<exists>e'.
        fst (create_contrast_image E a cd data_df ft j (DataFrame [] manifest_columns)) =
          Inl e' \<and>
        fst (generate_contrast_dataset E a) = Inl e') \<and>
     tables (snd (generate_contrast_dataset E a)) = []"
proof -
  from files_failed_job [OF assms] show ?thesis
    by (fastforce simp: dataset_trace dataset_result)
qed

theorem job_failure_propagates_witness:
  "(fst (read_inputs lab_env_disk_full (lab_args lab_caps lab_out 1 [- 0.2, - 0.05])) = Inr ([(''single'', lab_caps)], lab_rows, [(''pattern'', ''*T1w.nii.gz'')])) \<and>
   (runs_each_once lab_env_disk_full (n_proc (lab_args lab_caps lab_out 1 [- 0.2, - 0.05])) (length lab_rows)) \<and>
   ((0::nat) < length lab_rows) \<and>
   (fst (create_contrast_image lab_env_disk_full (lab_args lab_caps lab_out 1 [- 0.2, - 0.05]) [(''single'', lab_caps)] lab_rows [(''pattern'', ''*T1w.nii.gz'')] (0::nat) (DataFrame [] manifest_columns)) = Inl (External ''disk full'')) \<and>
   ((\<exists>j < length lab_rows. \<exists>e'.
        fst (create_contrast_image lab_env_disk_full (lab_args lab_caps lab_out 1 [- 0.2, - 0.05]) [(''single'', lab_caps)] lab_rows [(''pattern'', ''*T1w.nii.gz'')] j (DataFrame [] manifest_columns)) =
          Inl e' \<and>
        fst (generate_contrast_dataset lab_env_disk_full (lab_args lab_caps lab_out 1 [- 0.2, - 0.05])) = Inl e') \<and>
     tables (snd (generate_contrast_dataset lab_env_disk_full (lab_args lab_caps lab_out 1 [- 0.2, - 0.05]))) = [])"
proof -
  have h1: "fst (read_inputs lab_env_disk_full (lab_args lab_caps lab_out 1 [- 0.2, - 0.05])) = Inr ([(''single'', lab_caps)], lab_rows, [(''pattern'', ''*T1w.nii.gz'')])"
    by code_simp
  have h2: "runs_each_once lab_env_disk_full (n_proc (lab_args lab_caps lab_out 1 [- 0.2, - 0.05])) (length lab_rows)"
    by (simp add: runs_each_once_def lab_env_disk_full_def lab_env_def lab_args_def)
  have h3: "(0::nat) < length lab_rows"
    by (simp add: lab_rows_def)
  have h4: "fst (create_contrast_image lab_env_disk_full (lab_args lab_caps lab_out 1 [- 0.2, - 0.05]) [(''single'', lab_caps)] lab_rows [(''pattern'', ''*T1w.nii.gz'')] (0::nat) (DataFrame [] manifest_columns)) = Inl (External ''disk full'')"
    by code_simp
  show ?thesis
    by (intro conjI h1 h2 h3 h4 job_failure_propagates [OF h1 h2 h3 h4])
qed


section \<open>What the run writes, and where\<close>







lemma str_split_no_sep: "sep \<notin> set s \<Longrightarrow> str_split sep s = [s]"
  by (induction s) auto

lemma fields_subset: "w \<in> set (str_split sep s) \<Longrightarrow> set w \<subseteq> set s"
proof (induction s arbitrary: w)
  case Nil
  then show ?case by simp
next
  case (Cons c cs)
  obtain v vs where sp: "str_split sep cs = v # vs"
    using str_split_not_Nil [of sep cs] by (cases "str_split sep cs") auto
  from Cons.IH [of v] sp have v: "set v \<subseteq> set cs" by simp
  from Cons.IH sp have vs: "\<forall>u \<in> set vs. set u \<subseteq> set cs" by simp
  from Cons.prems sp consider "w = []" | "w = c # v" | "w = v" | "w \<in> set vs"
    by (auto split: if_splits)
  then show ?case using v vs by cases auto
qed

lemma fields_no_sep: "w \<in> set (str_split sep s) \<Longrightarrow> sep \<notin> set w"
proof (induction s arbitrary: w)
  case Nil
  then show ?case by simp
next
  case (Cons c cs)
  then show ?case
    by (cases "str_split sep cs") (auto split: if_splits)
qed

lemma str_join_subset: "set (str_join sep ws) \<subseteq> set sep \<union> \<Union> (set ` set ws)"
  by (induction sep ws rule: str_join.induct) auto

lemma PurePath_plain:
  "CHR ''/'' \<notin> set s \<Longrightarrow>
     PurePath s = Path [] (if s = [] \<or> s = ''.'' then [] else [s])"
  by (cases s) (auto simp: PurePath_def posix_root_def str_split_no_sep)

lemma joinpath_plain:
  "CHR ''/'' \<notin> set s \<Longrightarrow>
     joinpath p s = Path (anchor p) (parts p @ (if s = [] \<or> s = ''.'' then [] else [s]))"
  by (simp add: joinpath_def PurePath_plain)


lemma path_name_no_slash: "CHR ''/'' \<notin> set (path_name (PurePath s))"
proof (cases "parts (PurePath s) = []")
  case True
  then show ?thesis by (simp add: path_name_def)
next
  case False
  then have "last (parts (PurePath s)) \<in> set (parts (PurePath s))" by simp
  then have "last (parts (PurePath s)) \<in> set (str_split CHR ''/'' s)"
    by (simp add: PurePath_def)
  from fields_no_sep [OF this] False show ?thesis by (simp add: path_name_def)
qed

lemma pattern_no_slash:
  assumes "CHR ''/'' \<notin> set n"
  shows "CHR ''/'' \<notin> set (filename_pattern_of n)"
proof
  assume "CHR ''/'' \<in> set (filename_pattern_of n)"
  with str_join_subset [of "''_''" "drop 2 (str_split CHR ''_'' n)"]
  obtain w where "w \<in> set (drop 2 (str_split CHR ''_'' n))" and "CHR ''/'' \<in> set w"
    by (auto simp: filename_pattern_of_def)
  then have "w \<in> set (str_split CHR ''_'' n)" by (meson in_set_dropD)
  from fields_subset [OF this] \<open>CHR ''/'' \<in> set w\<close> assms show False by auto
qed









section \<open>The calls of a job and of a run\<close>

lemma job_calls:
  assumes "fst (create_contrast_image E a cd data_df ft i odf) = Inr d"
  shows "\<exists>caps found g0 g1 img.
     i < length data_df \<and>
     getitem cd (cohort (data_df ! i)) = Inr caps \<and>
     clinica_file_reader E [participant_id (data_df ! i)] [session_id (data_df ! i)] caps ft
       = Inr found \<and>
     found \<noteq> [] \<and>
     CHR ''-'' \<in> set (participant_id (data_df ! i)) \<and>
     item (gamma a) 0 = Inr g0 \<and> item (gamma a) 1 = Inr g1 \<and>
     mkdir E (expected_dir a (data_df ! i)) = Inr () \<and>
     tio_RandomGamma E (g0, g1) (PurePath (hd found)) = Inr img \<and>
     save E img (joinpath (expected_dir a (data_df ! i))
        (expected_name (data_df ! i) (path_name (PurePath (hd found))))) = Inr () \<and>
     snd (create_contrast_image E a cd data_df ft i odf) =
       [Mkdir (expected_dir a (data_df ! i)),
        RandomGamma (g0, g1) (PurePath (hd found)),
        Save (joinpath (expected_dir a (data_df ! i))
          (expected_name (data_df ! i) (path_name (PurePath (hd found))))) img]"
proof -
  let ?r = "data_df ! i"
  let ?job = "create_contrast_image E a cd data_df ft i odf"
  from assms have "?job = (Inr d, snd ?job)" by (metis prod.collapse)
  from create_contrast_image_Inr [OF this] obtain caps found found0 sid g0 g1 img where
    i: "i < length data_df"
    and caps: "getitem cd (cohort ?r) = Inr caps"
    and found: "clinica_file_reader E [participant_id ?r] [session_id ?r] caps ft = Inr found"
    and found0: "item found 0 = Inr found0"
    and sid: "subject_id_of (participant_id ?r) = Inr sid"
    and g: "item (gamma a) 0 = Inr g0" "item (gamma a) 1 = Inr g1"
    and mk: "mkdir E (contrast_image_nii_dir a sid (session_id ?r)) = Inr ()"
    and tr: "tio_RandomGamma E (g0, g1) (PurePath found0) = Inr img"
    and sv: "save E img (joinpath (contrast_image_nii_dir a sid (session_id ?r))
        (contrast_image_nii_filename sid (session_id ?r)
           (filename_pattern_of (path_name (PurePath found0))))) = Inr ()"
    and l: "snd ?job = [Mkdir (contrast_image_nii_dir a sid (session_id ?r)),
          RandomGamma (g0, g1) (PurePath found0),
          Save (joinpath (contrast_image_nii_dir a sid (session_id ?r))
            (contrast_image_nii_filename sid (session_id ?r)
               (filename_pattern_of (path_name (PurePath found0))))) img]"
    by blast
  from found0 have f0: "found \<noteq> []" "found0 = hd found" by (simp_all add: item_0)
  from sid have s: "CHR ''-'' \<in> set (participant_id ?r)" "sid = second_field (participant_id ?r)"
    by (simp_all add: subject_id_of_Inr)
  have dir: "contrast_image_nii_dir a sid (session_id ?r) = expected_dir a ?r"
    by (simp add: contrast_image_nii_dir_def expected_dir_def s)
  have name: "contrast_image_nii_filename sid (session_id ?r)
           (filename_pattern_of (path_name (PurePath (hd found)))) =
      expected_name ?r (path_name (PurePath (hd found)))"
    by (simp add: contrast_image_nii_filename_def expected_name_def filename_pattern_of_def s)
  from l have "snd ?job =
       [Mkdir (expected_dir a ?r), RandomGamma (g0, g1) (PurePath (hd found)),
        Save (joinpath (expected_dir a ?r)
          (expected_name ?r (path_name (PurePath (hd found))))) img]"
    by (simp add: dir name f0)
  moreover from mk have "mkdir E (expected_dir a ?r) = Inr ()" by (simp add: dir)
  moreover from tr have "tio_RandomGamma E (g0, g1) (PurePath (hd found)) = Inr img"
    by (simp add: f0)
  moreover from sv have "save E img (joinpath (expected_dir a ?r)
        (expected_name ?r (path_name (PurePath (hd found))))) = Inr ()"
    by (simp add: dir f0 name)
  ultimately show ?thesis using i caps found f0(1) s(1) g by blast
qed

lemma expected_name_plain:
  assumes "CHR ''/'' \<notin> set (participant_id r)" and "CHR ''/'' \<notin> set (session_id r)"
  shows "component (expected_name r (path_name (PurePath s)))"
proof -
  have "set (second_field (participant_id r)) \<subseteq> set (participant_id r)"
    by (auto simp: second_field_def after_first_hyphen_def
        dest!: set_takeWhileD in_set_dropD)
       (meson in_set_dropD set_dropWhileD)
  with assms(1) have "CHR ''/'' \<notin> set (second_field (participant_id r))" by auto
  moreover from pattern_no_slash [OF path_name_no_slash [of s]]
  have "CHR ''/'' \<notin> set (str_join ''_'' (drop 2 (str_split CHR ''_'' (path_name (PurePath s)))))"
    by (simp add: filename_pattern_of_def)
  ultimately show ?thesis using assms(2)
    by (simp add: component_def expected_name_def)
qed

lemma expected_dir_plain:
  assumes "CHR ''/'' \<notin> set (participant_id r)" and "component (session_id r)"
    and "component (preprocessing a)"
  shows "expected_dir a r =
     Path (anchor (output_dir a))
       (parts (output_dir a) @ [''subjects'', ''sub-CONT'' @ second_field (participant_id r),
          session_id r, preprocessing a])"
proof -
  have "set (second_field (participant_id r)) \<subseteq> set (participant_id r)"
    by (auto simp: second_field_def after_first_hyphen_def
        dest!: set_takeWhileD in_set_dropD)
       (meson in_set_dropD set_dropWhileD)
  with assms(1) have "CHR ''/'' \<notin> set (second_field (participant_id r))" by auto
  with assms(2,3) show ?thesis
    by (simp add: expected_dir_def joinpath_plain component_def)
qed

lemma path_name_snoc: "path_name (Path an (xs @ [x])) = x"
  by (simp add: path_name_def)

lemma expected_file_plain:
  assumes "CHR ''/'' \<notin> set (participant_id r)" and "CHR ''/'' \<notin> set (session_id r)"
  shows "joinpath d (expected_name r (path_name (PurePath s))) =
     Path (anchor d) (parts d @ [expected_name r (path_name (PurePath s))])"
  using expected_name_plain [OF assms, of s]
  by (simp add: joinpath_plain component_def)

text \<open>
  Claim C7, as amended. Let the job of an input row return, and let the participant of
  the row contain no slash and its session and the preprocessing each be the name of
  one directory entry. Then the job makes three calls: it creates the directory
  \<^verbatim>\<open>output_dir/subjects/sub-CONT<id>/<session_id>/<preprocessing>\<close>, applies the
  transform to the image found for the row, and saves the result in that directory
  under a name of one entry; \<^verbatim>\<open><id>\<close> is the second field of the participant.
\<close>

theorem image_saved_in_subject_dir:
  assumes "fst (create_contrast_image E a cd data_df ft i odf) = Inr d"
    and "CHR ''/'' \<notin> set (participant_id (data_df ! i))"
    and "component (session_id (data_df ! i))"
    and "component (preprocessing a)"
  shows "\<exists>caps found g0 g1 img.
     getitem cd (cohort (data_df ! i)) = Inr caps \<and>
     clinica_file_reader E [participant_id (data_df ! i)] [session_id (data_df ! i)] caps ft
       = Inr found \<and>
     found \<noteq> [] \<and>
     item (gamma a) 0 = Inr g0 \<and> item (gamma a) 1 = Inr g1 \<and>
     tio_RandomGamma E (g0, g1) (PurePath (hd found)) = Inr img \<and>
     component (expected_name (data_df ! i) (path_name (PurePath (hd found)))) \<and>
     snd (create_contrast_image E a cd data_df ft i odf) =
       [Mkdir (Path (anchor (output_dir a))
          (parts (output_dir a) @
           [''subjects'', ''sub-CONT'' @ second_field (participant_id (data_df ! i)),
            session_id (data_df ! i), preprocessing a])),
        RandomGamma (g0, g1) (PurePath (hd found)),
        Save (Path (anchor (output_dir a))
          (parts (output_dir a) @
           [''subjects'', ''sub-CONT'' @ second_field (participant_id (data_df ! i)),
            session_id (data_df ! i), preprocessing a,
            expected_name (data_df ! i) (path_name (PurePath (hd found)))])) img]"
proof -
  let ?r = "data_df ! i"
  from assms(3) have ses: "CHR ''/'' \<notin> set (session_id ?r)" by (simp add: component_def)
  from job_calls [OF assms(1)] obtain caps found g0 g1 img where
    c: "getitem cd (cohort ?r) = Inr caps"
      "clinica_file_reader E [participant_id ?r] [session_id ?r] caps ft = Inr found"
      "found \<noteq> []" "item (gamma a) 0 = Inr g0" "item (gamma a) 1 = Inr g1"
      "tio_RandomGamma E (g0, g1) (PurePath (hd found)) = Inr img"
    and l: "snd (create_contrast_image E a cd data_df ft i odf) =
       [Mkdir (expected_dir a ?r), RandomGamma (g0, g1) (PurePath (hd found)),
        Save (joinpath (expected_dir a ?r)
          (expected_name ?r (path_name (PurePath (hd found))))) img]"
    by blast
  note dir = expected_dir_plain [OF assms(2,3,4)]
  note nm = expected_name_plain [OF assms(2) ses, of "hd found"]
  from l have "snd (create_contrast_image E a cd data_df ft i odf) =
       [Mkdir (Path (anchor (output_dir a))
          (parts (output_dir a) @
           [''subjects'', ''sub-CONT'' @ second_field (participant_id ?r),
            session_id ?r, preprocessing a])),
        RandomGamma (g0, g1) (PurePath (hd found)),
        Save (Path (anchor (output_dir a))
          (parts (output_dir a) @
           [''subjects'', ''sub-CONT'' @ second_field (participant_id ?r),
            session_id ?r, preprocessing a,
            expected_name ?r (path_name (PurePath (hd found)))])) img]"
    by (simp add: expected_file_plain [OF assms(2) ses] dir)
  with c nm show ?thesis by blast
qed

theorem image_saved_in_subject_dir_witness:
  "(fst (create_contrast_image (lab_env lab_rows) (lab_args lab_caps lab_out 1 [- 0.2, - 0.05]) [(''single'', lab_caps)] lab_rows [(''pattern'', ''*T1w.nii.gz'')] (0::nat) (DataFrame [] manifest_columns)) = Inr \<lparr>columns = [''participant_id'', ''session_id'', ''diagnosis''],
      rows = [[Some ''sub-CONT01'', Some ''ses-M00'', Some ''contrast'']]\<rparr>) \<and>
   (CHR ''/'' \<notin> set (participant_id (lab_rows ! (0::nat)))) \<and>
   (component (session_id (lab_rows ! (0::nat)))) \<and>
   (component (preprocessing (lab_args lab_caps lab_out 1 [- 0.2, - 0.05]))) \<and>
   (\<exists>caps found g0 g1 img.
     getitem [(''single'', lab_caps)] (cohort (lab_rows ! (0::nat))) = Inr caps \<and>
     clinica_file_reader (lab_env lab_rows) [participant_id (lab_rows ! (0::nat))] [session_id (lab_rows ! (0::nat))] caps [(''pattern'', ''*T1w.nii.gz'')]
       = Inr found \<and>
     found \<noteq> [] \<and>
     item (gamma (lab_args lab_caps lab_out 1 [- 0.2, - 0.05])) 0 = Inr g0 \<and> item (gamma (lab_args lab_caps lab_out 1 [- 0.2, - 0.05])) 1 = Inr g1 \<and>
     tio_RandomGamma (lab_env lab_rows) (g0, g1) (PurePath (hd found)) = Inr img \<and>
     component (expected_name (lab_rows ! (0::nat)) (path_name (PurePath (hd found)))) \<and>
     snd (create_contrast_image (lab_env lab_rows) (lab_args lab_caps lab_out 1 [- 0.2, - 0.05]) [(''single'', lab_caps)] lab_rows [(''pattern'', ''*T1w.nii.gz'')] (0::nat) (DataFrame [] manifest_columns)) =
       [Mkdir (Path (anchor (output_dir (lab_args lab_caps lab_out 1 [- 0.2, - 0.05])))
          (parts (output_dir (lab_args lab_caps lab_out 1 [- 0.2, - 0.05])) @
           [''subjects'', ''sub-CONT'' @ second_field (participant_id (lab_rows ! (0::nat))),
            session_id (lab_rows ! (0::nat)), preprocessing (lab_args lab_caps lab_out 1 [- 0.2, - 0.05])])),
        RandomGamma (g0, g1) (PurePath (hd found)),
        Save (Path (anchor (output_dir (lab_args lab_caps lab_out 1 [- 0.2, - 0.05])))
          (parts (output_dir (lab_args lab_caps lab_out 1 [- 0.2, - 0.05])) @
           [''subjects'', ''sub-CONT'' @ second_field (participant_id (lab_rows ! (0::nat))),
            session_id (lab_rows ! (0::nat)), preprocessing (lab_args lab_caps lab_out 1 [- 0.2, - 0.05]),
            expected_name (lab_rows ! (0::nat)) (path_name (PurePath (hd found)))])) img])"
proof -
  have h1: "fst (create_contrast_image (lab_env lab_rows) (lab_args lab_caps lab_out 1 [- 0.2, - 0.05]) [(''single'', lab_caps)] lab_rows [(''pattern'', ''*T1w.nii.gz'')] (0::nat) (DataFrame [] manifest_columns)) = Inr \<lparr>columns = [''participant_id'', ''session_id'', ''diagnosis''],
      rows = [[Some ''sub-CONT01'', Some ''ses-M00'', Some ''contrast'']]\<rparr>"
    by code_simp
  have h2: "CHR ''/'' \<notin> set (participant_id (lab_rows ! (0::nat)))"
    by (simp add: lab_rows_def)
  have h3: "component (session_id (lab_rows ! (0::nat)))"
    by (simp add: lab_rows_def component_def)
  have h4: "component (preprocessing (lab_args lab_caps lab_out 1 [- 0.2, - 0.05]))"
    by (simp add: lab_args_def component_def)
  show ?thesis
    by (intro conjI h1 h2 h3 h4 image_saved_in_subject_dir [OF h1 h2 h3 h4])
qed

text \<open>
  The claim as it is written has no condition on the names. For a row whose session is
  named \<^verbatim>\<open>/caps/ses-M00\<close>, with \<^verbatim>\<open>output_dir\<close> \<^verbatim>\<open>/out\<close>, the job returns after three
  calls; the directory it creates is \<^verbatim>\<open>/caps/ses-M00/t1-linear\<close> and the image is saved
  below it, neither of them in \<^verbatim>\<open>output_dir\<close> or below.
\<close>

theorem image_saved_in_subject_dir_counterexample:
  "fst (create_contrast_image (lab_env lab_rows_absolute_session)
       (lab_args lab_caps lab_out 1 [- 0.2, - 0.05]) [(''single'', lab_caps)]
       lab_rows_absolute_session [(''pattern'', ''*T1w.nii.gz'')] 0 (DataFrame [] manifest_columns)) =
     Inr \<lparr>columns = [''participant_id'', ''session_id'', ''diagnosis''],
          rows = [[Some ''sub-CONT01'', Some ''/caps/ses-M00'', Some ''contrast'']]\<rparr> \<and>
   length (snd (create_contrast_image (lab_env lab_rows_absolute_session)
       (lab_args lab_caps lab_out 1 [- 0.2, - 0.05]) [(''single'', lab_caps)]
       lab_rows_absolute_session [(''pattern'', ''*T1w.nii.gz'')] 0 (DataFrame [] manifest_columns))) = 3 \<and>
   snd (create_contrast_image (lab_env lab_rows_absolute_session)
       (lab_args lab_caps lab_out 1 [- 0.2, - 0.05]) [(''single'', lab_caps)]
       lab_rows_absolute_session [(''pattern'', ''*T1w.nii.gz'')] 0 (DataFrame [] manifest_columns)) ! 0 = Mkdir (Path ''/'' [''caps'', ''ses-M00'', ''t1-linear'']) \<and>
   snd (create_contrast_image (lab_env lab_rows_absolute_session)
       (lab_args lab_caps lab_out 1 [- 0.2, - 0.05]) [(''single'', lab_caps)]
       lab_rows_absolute_session [(''pattern'', ''*T1w.nii.gz'')] 0 (DataFrame [] manifest_columns)) ! 2 = Save (Path ''/'' [''caps'', ''ses-M00'', ''t1-linear'', ''sub-CONT01_'', ''caps'',
        ''ses-M00_T1w.nii.gz'']) (Image []) \<and>
   \<not> contained (Path ''/'' [''caps'', ''ses-M00'', ''t1-linear'']) (output_dir (lab_args lab_caps lab_out 1 [- 0.2, - 0.05])) \<and>
   \<not> contained (Path ''/'' [''caps'', ''ses-M00'', ''t1-linear'', ''sub-CONT01_'', ''caps'',
        ''ses-M00_T1w.nii.gz'']) (output_dir (lab_args lab_caps lab_out 1 [- 0.2, - 0.05]))"
  by code_simp

text \<open>
  Claim C2, as amended. Let the job of an input row return, and let neither the
  participant nor the session of the row contain a slash. Then the job saves one
  image, found for the row and transformed, and the name of the file it saves is
  \<^verbatim>\<open>sub-CONT<id>_<session>_<suffix>\<close>, where \<^verbatim>\<open><id>\<close> is the second field of
  \<^verbatim>\<open>participant_id\<close> when it is split at hyphens (the text between its first hyphen
  and the next one, or the end), \<^verbatim>\<open><session>\<close> is the \<^verbatim>\<open>session_id\<close> of the row, and
  \<^verbatim>\<open><suffix>\<close> is the name of the input image without its first two fields when it is
  split at underscores.
\<close>

theorem image_filename:
  assumes "fst (create_contrast_image E a cd data_df ft i odf) = Inr d"
    and "CHR ''/'' \<notin> set (participant_id (data_df ! i))"
    and "CHR ''/'' \<notin> set (session_id (data_df ! i))"
  shows "\<exists>caps found g0 g1 img p.
     getitem cd (cohort (data_df ! i)) = Inr caps \<and>
     clinica_file_reader E [participant_id (data_df ! i)] [session_id (data_df ! i)] caps ft
       = Inr found \<and>
     found \<noteq> [] \<and>
     item (gamma a) 0 = Inr g0 \<and> item (gamma a) 1 = Inr g1 \<and>
     tio_RandomGamma E (g0, g1) (PurePath (hd found)) = Inr img \<and>
     filter is_save (snd (create_contrast_image E a cd data_df ft i odf)) = [Save p img] \<and>
     path_name p =
       ''sub-CONT'' @ second_field (participant_id (data_df ! i)) @ ''_'' @
       session_id (data_df ! i) @ ''_'' @
       str_join ''_'' (drop 2 (str_split CHR ''_'' (path_name (PurePath (hd found)))))"
proof -
  let ?r = "data_df ! i"
  from job_calls [OF assms(1)] obtain caps found g0 g1 img where
    c: "getitem cd (cohort ?r) = Inr caps"
      "clinica_file_reader E [participant_id ?r] [session_id ?r] caps ft = Inr found"
      "found \<noteq> []" "item (gamma a) 0 = Inr g0" "item (gamma a) 1 = Inr g1"
      "tio_RandomGamma E (g0, g1) (PurePath (hd found)) = Inr img"
    and l: "snd (create_contrast_image E a cd data_df ft i odf) =
       [Mkdir (expected_dir a ?r), RandomGamma (g0, g1) (PurePath (hd found)),
        Save (joinpath (expected_dir a ?r)
          (expected_name ?r (path_name (PurePath (hd found))))) img]"
    by blast
  let ?p = "joinpath (expected_dir a ?r) (expected_name ?r (path_name (PurePath (hd found))))"
  from l have "filter is_save (snd (create_contrast_image E a cd data_df ft i odf)) =
      [Save ?p img]" by simp
  moreover have "path_name ?p = expected_name ?r (path_name (PurePath (hd found)))"
    by (simp only: expected_file_plain [OF assms(2,3)] path_name_snoc)
  ultimately show ?thesis using c unfolding expected_name_def by blast
qed

theorem image_filename_witness:
  "(fst (create_contrast_image (lab_env lab_rows) (lab_args lab_caps lab_out 1 [- 0.2, - 0.05]) [(''single'', lab_caps)] lab_rows [(''pattern'', ''*T1w.nii.gz'')] (0::nat) (DataFrame [] manifest_columns)) = Inr \<lparr>columns = [''participant_id'', ''session_id'', ''diagnosis''],
      rows = [[Some ''sub-CONT01'', Some ''ses-M00'', Some ''contrast'']]\<rparr>) \<and>
   (CHR ''/'' \<notin> set (participant_id (lab_rows ! (0::nat)))) \<and>
   (CHR ''/'' \<notin> set (session_id (lab_rows ! (0::nat)))) \<and>
   (\<exists>caps found g0 g1 img p.
     getitem [(''single'', lab_caps)] (cohort (lab_rows ! (0::nat))) = Inr caps \<and>
     clinica_file_reader (lab_env lab_rows) [participant_id (lab_rows ! (0::nat))] [session_id (lab_rows ! (0::nat))] caps [(''pattern'', ''*T1w.nii.gz'')]
       = Inr found \<and>
     found \<noteq> [] \<and>
     item (gamma (lab_args lab_caps lab_out 1 [- 0.2, - 0.05])) 0 = Inr g0 \<and> item (gamma (lab_args lab_caps lab_out 1 [- 0.2, - 0.05])) 1 = Inr g1 \<and>
     tio_RandomGamma (lab_env lab_rows) (g0, g1) (PurePath (hd found)) = Inr img \<and>
     filter is_save (snd (create_contrast_image (lab_env lab_rows) (lab_args lab_caps lab_out 1 [- 0.2, - 0.05]) [(''single'', lab_caps)] lab_rows [(''pattern'', ''*T1w.nii.gz'')] (0::nat) (DataFrame [] manifest_columns))) = [Save p img] \<and>
     path_name p =
       ''sub-CONT'' @ second_field (participant_id (lab_rows ! (0::nat))) @ ''_'' @
       session_id (lab_rows ! (0::nat)) @ ''_'' @
       str_join ''_'' (drop 2 (str_split CHR ''_'' (path_name (PurePath (hd found))))))"
proof -
  have h1: "fst (create_contrast_image (lab_env lab_rows) (lab_args lab_caps lab_out 1 [- 0.2, - 0.05]) [(''single'', lab_caps)] lab_rows [(''pattern'', ''*T1w.nii.gz'')] (0::nat) (DataFrame [] manifest_columns)) = Inr \<lparr>columns = [''participant_id'', ''session_id'', ''diagnosis''],
      rows = [[Some ''sub-CONT01'', Some ''ses-M00'', Some ''contrast'']]\<rparr>"
    by code_simp
  have h2: "CHR ''/'' \<notin> set (participant_id (lab_rows ! (0::nat)))"
    by (simp add: lab_rows_def)
  have h3: "CHR ''/'' \<notin> set (session_id (lab_rows ! (0::nat)))"
    by (simp add: lab_rows_def)
  show ?thesis
    by (intro conjI h1 h2 h3 image_filename [OF h1 h2 h3])
qed

text \<open>
  The claim as it is written takes for \<^verbatim>\<open><id>\<close> everything after the first hyphen. For
  the participant \<^verbatim>\<open>sub-A-1\<close> the job succeeds and saves
  \<^verbatim>\<open>sub-CONTA_ses-M00_space-MNI_T1w.nii.gz\<close>, while the text after the first hyphen is
  \<^verbatim>\<open>A-1\<close>. And it has no condition on the names: for the session \<^verbatim>\<open>/caps/ses-M00\<close> the
  job succeeds and the name of the file it saves is \<^verbatim>\<open>ses-M00_T1w.nii.gz\<close>, the text
  after the last slash.
\<close>

theorem image_filename_counterexample:
  "fst (create_contrast_image (lab_env lab_rows_two_hyphens)
       (lab_args lab_caps lab_out 1 [- 0.2, - 0.05]) [(''single'', lab_caps)]
       lab_rows_two_hyphens [(''pattern'', ''*T1w.nii.gz'')] 0 (DataFrame [] manifest_columns)) =
     Inr \<lparr>columns = [''participant_id'', ''session_id'', ''diagnosis''],
          rows = [[Some ''sub-CONTA'', Some ''ses-M00'', Some ''contrast'']]\<rparr> \<and>
   snd (create_contrast_image (lab_env lab_rows_two_hyphens)
       (lab_args lab_caps lab_out 1 [- 0.2, - 0.05]) [(''single'', lab_caps)]
       lab_rows_two_hyphens [(''pattern'', ''*T1w.nii.gz'')] 0 (DataFrame [] manifest_columns)) ! 2 =
     Save (Path ''/'' [''out'', ''subjects'', ''sub-CONTA'', ''ses-M00'', ''t1-linear'',
             ''sub-CONTA_ses-M00_space-MNI_T1w.nii.gz'']) (Image []) \<and>
   path_name (Path ''/'' [''out'', ''subjects'', ''sub-CONTA'', ''ses-M00'', ''t1-linear'',
             ''sub-CONTA_ses-M00_space-MNI_T1w.nii.gz'']) =
     ''sub-CONTA_ses-M00_space-MNI_T1w.nii.gz'' \<and>
   ''sub-CONT'' @ after_first_hyphen ''sub-A-1'' @ ''_'' @ ''ses-M00'' @ ''_'' @
     filename_pattern_of ''sub-A-1_ses-M00_space-MNI_T1w.nii.gz'' =
     ''sub-CONTA-1_ses-M00_space-MNI_T1w.nii.gz'' \<and>
   ''sub-CONTA-1_ses-M00_space-MNI_T1w.nii.gz'' \<noteq> ''sub-CONTA_ses-M00_space-MNI_T1w.nii.gz'' \<and>
   filter is_save (snd (create_contrast_image (lab_env lab_rows_absolute_session)
       (lab_args lab_caps lab_out 1 [- 0.2, - 0.05]) [(''single'', lab_caps)]
       lab_rows_absolute_session [(''pattern'', ''*T1w.nii.gz'')] 0 (DataFrame [] manifest_columns))) = [Save (Path ''/'' [''caps'', ''ses-M00'', ''t1-linear'', ''sub-CONT01_'', ''caps'',
        ''ses-M00_T1w.nii.gz'']) (Image [])] \<and>
   path_name (Path ''/'' [''caps'', ''ses-M00'', ''t1-linear'', ''sub-CONT01_'', ''caps'',
        ''ses-M00_T1w.nii.gz'']) = ''ses-M00_T1w.nii.gz''"
  by code_simp


text \<open>
  Claim C6. In a run where the inputs are read, the pool runs each job once and every
  step up to the report returns, the calls made are exactly these, and each of them
  returns: the record of the parameters (\<^verbatim>\<open>commandline_to_json\<close>); the directory
  \<^verbatim>\<open>subjects\<close>; for each row, in the order of the pool, the directory
  \<^verbatim>\<open>output_dir/subjects/sub-CONT<id>/<session>/<preprocessing>\<close>, the transform of the
  image found for the row and the saving of its result in that directory under the
  name \<^verbatim>\<open>sub-CONT<id>_<session>_<suffix>\<close>; the table \<^verbatim>\<open>output_dir/data.tsv\<close>, whose rows
  are those of the input in reverse order, relabelled; and the report of missing
  modalities in \<^verbatim>\<open>output_dir\<close> for the same frame.
\<close>

theorem outputs_written:
  assumes "fst (read_inputs E a) = Inr (cd, data_df, ft)"
    and "runs_each_once E (n_proc a) (length data_df)"
    and "fst (generate_contrast_files E a) = Inr ()"
  shows "(snd (generate_contrast_dataset E a) =
       [CommandlineToJson [(''output_dir'', PathV (output_dir a)), (''caps_dir'', PathV (caps_directory a)),
        (''preprocessing'', StrV (preprocessing a))],
        Mkdir (joinpath (output_dir a) ''subjects'')] @
       concat (map (\<lambda>j. snd (create_contrast_image E a cd data_df ft j (DataFrame [] manifest_columns)))
         (joblib_order E (n_proc a) (length data_df))) @
       [ToCsv (joinpath (output_dir a) ''data.tsv'')
          \<lparr>columns = (if data_df = [] then [] else manifest_columns),
         rows = rev (map manifest_row data_df)\<rparr>,
        WriteMissingMods (output_dir a)
          \<lparr>columns = (if data_df = [] then [] else manifest_columns),
         rows = rev (map manifest_row data_df)\<rparr>]) \<and>
     (commandline_to_json E [(''output_dir'', PathV (output_dir a)), (''caps_dir'', PathV (caps_directory a)),
        (''preprocessing'', StrV (preprocessing a))] = Inr ()) \<and>
     (mkdir E (joinpath (output_dir a) ''subjects'') = Inr ()) \<and>
     (to_csv E \<lparr>columns = (if data_df = [] then [] else manifest_columns),
         rows = rev (map manifest_row data_df)\<rparr>
       (joinpath (output_dir a) ''data.tsv'') = Inr ()) \<and>
     (write_missing_mods E (output_dir a)
       \<lparr>columns = (if data_df = [] then [] else manifest_columns),
         rows = rev (map manifest_row data_df)\<rparr> = Inr ()) \<and>
     (\<forall>i < length data_df. \<exists>caps found g0 g1 img.
        getitem cd (cohort (data_df ! i)) = Inr caps \<and>
        clinica_file_reader E [participant_id (data_df ! i)] [session_id (data_df ! i)] caps ft
          = Inr found \<and>
        found \<noteq> [] \<and>
        item (gamma a) 0 = Inr g0 \<and> item (gamma a) 1 = Inr g1 \<and>
        mkdir E (expected_dir a (data_df ! i)) = Inr () \<and>
        tio_RandomGamma E (g0, g1) (PurePath (hd found)) = Inr img \<and>
        save E img (joinpath (expected_dir a (data_df ! i))
          (expected_name (data_df ! i) (path_name (PurePath (hd found))))) = Inr () \<and>
        snd (create_contrast_image E a cd data_df ft i (DataFrame [] manifest_columns)) =
          [Mkdir (expected_dir a (data_df ! i)),
           RandomGamma (g0, g1) (PurePath (hd found)),
           Save (joinpath (expected_dir a (data_df ! i))
             (expected_name (data_df ! i) (path_name (PurePath (hd found))))) img])"
proof -
  let ?job = "\<lambda>i. create_contrast_image E a cd data_df ft i (DataFrame [] manifest_columns)"
  from assms(1) have ri: "read_inputs E a = (Inr (cd, data_df, ft), snd (read_inputs E a))"
    by (metis prod.collapse)
  from assms(3) have ok: "generate_contrast_files E a = (Inr (), snd (generate_contrast_files E a))"
    by (metis prod.collapse)
  note f = files_Inr [OF ri assms(2) ok]
  note r = read_inputs_Inr [OF ri]
  from r have l0: "snd (read_inputs E a) =
      [CommandlineToJson [(''output_dir'', PathV (output_dir a)), (''caps_dir'', PathV (caps_directory a)),
        (''preprocessing'', StrV (preprocessing a))],
       Mkdir (joinpath (output_dir a) ''subjects'')]" by simp
  from f have "snd (generate_contrast_files E a) = snd (read_inputs E a) @
      concat (map (\<lambda>i. snd (?job i)) (joblib_order E (n_proc a) (length data_df))) @
      [ToCsv (joinpath (output_dir a) ''data.tsv'')
         \<lparr>columns = (if data_df = [] then [] else manifest_columns),
         rows = rev (map manifest_row data_df)\<rparr>,
       WriteMissingMods (output_dir a)
         \<lparr>columns = (if data_df = [] then [] else manifest_columns),
         rows = rev (map manifest_row data_df)\<rparr>]"
    by (rule conjunct2 [THEN conjunct1])
  then have c1: "snd (generate_contrast_dataset E a) =
       [CommandlineToJson [(''output_dir'', PathV (output_dir a)), (''caps_dir'', PathV (caps_directory a)),
        (''preprocessing'', StrV (preprocessing a))],
        Mkdir (joinpath (output_dir a) ''subjects'')] @
       concat (map (\<lambda>j. snd (create_contrast_image E a cd data_df ft j (DataFrame [] manifest_columns)))
         (joblib_order E (n_proc a) (length data_df))) @
       [ToCsv (joinpath (output_dir a) ''data.tsv'')
          \<lparr>columns = (if data_df = [] then [] else manifest_columns),
         rows = rev (map manifest_row data_df)\<rparr>,
        WriteMissingMods (output_dir a)
          \<lparr>columns = (if data_df = [] then [] else manifest_columns),
         rows = rev (map manifest_row data_df)\<rparr>]"
    by (simp only: dataset_trace l0)
  from r have c2: "commandline_to_json E [(''output_dir'', PathV (output_dir a)), (''caps_dir'', PathV (caps_directory a)),
        (''preprocessing'', StrV (preprocessing a))] = Inr ()"
    and c3: "mkdir E (joinpath (output_dir a) ''subjects'') = Inr ()" by simp_all
  from f have c4: "to_csv E \<lparr>columns = (if data_df = [] then [] else manifest_columns),
         rows = rev (map manifest_row data_df)\<rparr>
       (joinpath (output_dir a) ''data.tsv'') = Inr ()"
    and c5: "write_missing_mods E (output_dir a)
       \<lparr>columns = (if data_df = [] then [] else manifest_columns),
         rows = rev (map manifest_row data_df)\<rparr> = Inr ()" by simp_all
  have c6: "\<forall>i < length data_df. \<exists>caps found g0 g1 img.
        getitem cd (cohort (data_df ! i)) = Inr caps \<and>
        clinica_file_reader E [participant_id (data_df ! i)] [session_id (data_df ! i)] caps ft
          = Inr found \<and>
        found \<noteq> [] \<and>
        item (gamma a) 0 = Inr g0 \<and> item (gamma a) 1 = Inr g1 \<and>
        mkdir E (expected_dir a (data_df ! i)) = Inr () \<and>
        tio_RandomGamma E (g0, g1) (PurePath (hd found)) = Inr img \<and>
        save E img (joinpath (expected_dir a (data_df ! i))
          (expected_name (data_df ! i) (path_name (PurePath (hd found))))) = Inr () \<and>
        snd (create_contrast_image E a cd data_df ft i (DataFrame [] manifest_columns)) =
          [Mkdir (expected_dir a (data_df ! i)),
           RandomGamma (g0, g1) (PurePath (hd found)),
           Save (joinpath (expected_dir a (data_df ! i))
             (expected_name (data_df ! i) (path_name (PurePath (hd found))))) img]"
  proof (intro allI impI)
    fix i assume i: "i < length data_df"
    from f i obtain l' where "?job i = (Inr \<lparr>columns = manifest_columns,
        rows = [manifest_row (data_df ! i)]\<rparr>, l')" by blast
    then have "fst (?job i) = Inr \<lparr>columns = manifest_columns,
        rows = [manifest_row (data_df ! i)]\<rparr>" by simp
    from job_calls [OF this] show "\<exists>caps found g0 g1 img.
        getitem cd (cohort (data_df ! i)) = Inr caps \<and>
        clinica_file_reader E [participant_id (data_df ! i)] [session_id (data_df ! i)] caps ft
          = Inr found \<and>
        found \<noteq> [] \<and>
        item (gamma a) 0 = Inr g0 \<and> item (gamma a) 1 = Inr g1 \<and>
        mkdir E (expected_dir a (data_df ! i)) = Inr () \<and>
        tio_RandomGamma E (g0, g1) (PurePath (hd found)) = Inr img \<and>
        save E img (joinpath (expected_dir a (data_df ! i))
          (expected_name (data_df ! i) (path_name (PurePath (hd found))))) = Inr () \<and>
        snd (create_contrast_image E a cd data_df ft i (DataFrame [] manifest_columns)) =
          [Mkdir (expected_dir a (data_df ! i)),
           RandomGamma (g0, g1) (PurePath (hd found)),
           Save (joinpath (expected_dir a (data_df ! i))
             (expected_name (data_df ! i) (path_name (PurePath (hd found))))) img]" by blast
  qed
  show ?thesis by (intro conjI c1 c2 c3 c4 c5 c6)
qed

theorem outputs_written_witness:
  "(fst (read_inputs (lab_env lab_rows) (lab_args lab_caps lab_out 1 [- 0.2, - 0.05])) = Inr ([(''single'', lab_caps)], lab_rows, [(''pattern'', ''*T1w.nii.gz'')])) \<and>
   (runs_each_once (lab_env lab_rows) (n_proc (lab_args lab_caps lab_out 1 [- 0.2, - 0.05])) (length lab_rows)) \<and>
   (fst (generate_contrast_files (lab_env lab_rows) (lab_args lab_caps lab_out 1 [- 0.2, - 0.05])) = Inr ()) \<and>
   (snd (generate_contrast_dataset (lab_env lab_rows) (lab_args lab_caps lab_out 1 [- 0.2, - 0.05])) =
       [CommandlineToJson [(''output_dir'', PathV (output_dir (lab_args lab_caps lab_out 1 [- 0.2, - 0.05]))), (''caps_dir'', PathV (caps_directory (lab_args lab_caps lab_out 1 [- 0.2, - 0.05]))),
        (''preprocessing'', StrV (preprocessing (lab_args lab_caps lab_out 1 [- 0.2, - 0.05])))],
        Mkdir (joinpath (output_dir (lab_args lab_caps lab_out 1 [- 0.2, - 0.05])) ''subjects'')] @
       concat (map (\<lambda>j. snd (create_contrast_image (lab_env lab_rows) (lab_args lab_caps lab_out 1 [- 0.2, - 0.05]) [(''single'', lab_caps)] lab_rows [(''pattern'', ''*T1w.nii.gz'')] j (DataFrame [] manifest_columns)))
         (joblib_order (lab_env lab_rows) (n_proc (lab_args lab_caps lab_out 1 [- 0.2, - 0.05])) (length lab_rows))) @
       [ToCsv (joinpath (output_dir (lab_args lab_caps lab_out 1 [- 0.2, - 0.05])) ''data.tsv'')
          \<lparr>columns = (if lab_rows = [] then [] else manifest_columns),
         rows = rev (map manifest_row lab_rows)\<rparr>,
        WriteMissingMods (output_dir (lab_args lab_caps lab_out 1 [- 0.2, - 0.05]))
          \<lparr>columns = (if lab_rows = [] then [] else manifest_columns),
         rows = rev (map manifest_row lab_rows)\<rparr>]) \<and>
   (commandline_to_json (lab_env lab_rows) [(''output_dir'', PathV (output_dir (lab_args lab_caps lab_out 1 [- 0.2, - 0.05]))), (''caps_dir'', PathV (caps_directory (lab_args lab_caps lab_out 1 [- 0.2, - 0.05]))),
        (''preprocessing'', StrV (preprocessing (lab_args lab_caps lab_out 1 [- 0.2, - 0.05])))] = Inr ()) \<and>
   (mkdir (lab_env lab_rows) (joinpath (output_dir (lab_args lab_caps lab_out 1 [- 0.2, - 0.05])) ''subjects'') = Inr ()) \<and>
   (to_csv (lab_env lab_rows) \<lparr>columns = (if lab_rows = [] then [] else manifest_columns),
         rows = rev (map manifest_row lab_rows)\<rparr>
       (joinpath (output_dir (lab_args lab_caps lab_out 1 [- 0.2, - 0.05])) ''data.tsv'') = Inr ()) \<and>
   (write_missing_mods (lab_env lab_rows) (output_dir (lab_args lab_caps lab_out 1 [- 0.2, - 0.05]))
       \<lparr>columns = (if lab_rows = [] then [] else manifest_columns),
         rows = rev (map manifest_row lab_rows)\<rparr> = Inr ()) \<and>
   ((1::nat) < length lab_rows) \<and>
   (\<exists>caps found g0 g1 img.
        getitem [(''single'', lab_caps)] (cohort (lab_rows ! (1::nat))) = Inr caps \<and>
        clinica_file_reader (lab_env lab_rows) [participant_id (lab_rows ! (1::nat))] [session_id (lab_rows ! (1::nat))] caps [(''pattern'', ''*T1w.nii.gz'')]
          = Inr found \<and>
        found \<noteq> [] \<and>
        item (gamma (lab_args lab_caps lab_out 1 [- 0.2, - 0.05])) 0 = Inr g0 \<and> item (gamma (lab_args lab_caps lab_out 1 [- 0.2, - 0.05])) 1 = Inr g1 \<and>
        mkdir (lab_env lab_rows) (expected_dir (lab_args lab_caps lab_out 1 [- 0.2, - 0.05]) (lab_rows ! (1::nat))) = Inr () \<and>
        tio_RandomGamma (lab_env lab_rows) (g0, g1) (PurePath (hd found)) = Inr img \<and>
        save (lab_env lab_rows) img (joinpath (expected_dir (lab_args lab_caps lab_out 1 [- 0.2, - 0.05]) (lab_rows ! (1::nat)))
          (expected_name (lab_rows ! (1::nat)) (path_name (PurePath (hd found))))) = Inr () \<and>
        snd (create_contrast_image (lab_env lab_rows) (lab_args lab_caps lab_out 1 [- 0.2, - 0.05]) [(''single'', lab_caps)] lab_rows [(''pattern'', ''*T1w.nii.gz'')] (1::nat) (DataFrame [] manifest_columns)) =
          [Mkdir (expected_dir (lab_args lab_caps lab_out 1 [- 0.2, - 0.05]) (lab_rows ! (1::nat))),
           RandomGamma (g0, g1) (PurePath (hd found)),
           Save (joinpath (expected_dir (lab_args lab_caps lab_out 1 [- 0.2, - 0.05]) (lab_rows ! (1::nat)))
             (expected_name (lab_rows ! (1::nat)) (path_name (PurePath (hd found))))) img])"
proof -
  have h1: "fst (read_inputs (lab_env lab_rows) (lab_args lab_caps lab_out 1 [- 0.2, - 0.05])) = Inr ([(''single'', lab_caps)], lab_rows, [(''pattern'', ''*T1w.nii.gz'')])"
    by (simp only: lab_read fst_conv)
  have h2: "runs_each_once (lab_env lab_rows) (n_proc (lab_args lab_caps lab_out 1 [- 0.2, - 0.05])) (length lab_rows)"
    by (rule lab_pool)
  have h3: "fst (generate_contrast_files (lab_env lab_rows) (lab_args lab_caps lab_out 1 [- 0.2, - 0.05])) = Inr ()"
    by (rule lab_files_ok)
  have i1: "(1::nat) < length lab_rows"
    by (simp add: lab_rows_def)
  note run = outputs_written [OF h1 h2 h3]
  show ?thesis
    by (intro conjI h1 h2 h3 i1 run [THEN conjunct1]
        run [THEN conjunct2, THEN conjunct1]
        run [THEN conjunct2, THEN conjunct2, THEN conjunct1]
        run [THEN conjunct2, THEN conjunct2, THEN conjunct2, THEN conjunct1]
        run [THEN conjunct2, THEN conjunct2, THEN conjunct2, THEN conjunct2, THEN conjunct1]
        run [THEN conjunct2, THEN conjunct2, THEN conjunct2, THEN conjunct2, THEN conjunct2,
          THEN spec, THEN mp, OF i1])
qed

section \<open>The jobs in a shared world\<close>

















lemma exec_world_of_job:
  "exec (world_of E) (create_contrast_image_prog a cd data_df ft i odf) (w, tr) =
     (fst (create_contrast_image E a cd data_df ft i odf),
      (w, tr @ snd (create_contrast_image E a cd data_df ft i odf)))"
  by (simp add: create_contrast_image_prog_def create_contrast_image_def world_of_def
      proceed_def bind_def lift_def call_def ret_def Let_def split: sum.splits)

lemma exec_world_of_read_inputs:
  "exec (world_of E) (read_inputs_prog a) (w, tr) =
     (fst (read_inputs E a), (w, tr @ snd (read_inputs E a)))"
  by (simp add: read_inputs_prog_def read_inputs_def world_of_def
      bind_def lift_def call_def ret_def Let_def split: sum.splits)

lemma exec_world_of_write_outputs:
  "exec (world_of E) (write_outputs_prog a results) (w, tr) =
     (case bind (call (ToCsv (joinpath (output_dir a) ''data.tsv'') (concat_results results))
               (to_csv E (concat_results results) (joinpath (output_dir a) ''data.tsv'')))
            (\<lambda>_. bind (call (WriteMissingMods (output_dir a) (concat_results results))
               (write_missing_mods E (output_dir a) (concat_results results)))
            (\<lambda>_. raise (NameError ''logger''))) of
        (r, l) \<Rightarrow> (r, (w, tr @ l)))"
  by (simp add: write_outputs_prog_def world_of_def
      bind_def call_def raise_def Let_def split: sum.splits)

lemma finish_world_of:
  "finish (world_of E)
       (map (\<lambda>i. create_contrast_image_prog a cd data_df ft i odf) is) (w, tr) =
     (case run_jobs (\<lambda>i. create_contrast_image E a cd data_df ft i odf) is of
        (Inl e, l) \<Rightarrow> (Inl e, (w, tr @ l))
      | (Inr xs, l) \<Rightarrow> (Inr (map snd xs), (w, tr @ l)))"
proof (induction "is" arbitrary: tr)
  case Nil
  then show ?case by (simp add: ret_def)
next
  case (Cons i "is")
  show ?case
    by (cases "create_contrast_image E a cd data_df ft i odf")
       (auto simp: exec_world_of_job Cons.IH bind_def ret_def split: sum.splits prod.splits)
qed

lemma map_filter_finished:
  assumes "map fst xs = [0..<n]"
  shows "List.map_filter (map_of xs) [0..<n] = map snd xs"
proof -
  have len: "length xs = n" using assms by (metis length_map length_upt diff_zero)
  have d: "distinct (map fst xs)" using assms by simp
  have "map_of xs i = Some (snd (xs ! i))" if "i < n" for i
  proof -
    from that len have "xs ! i \<in> set xs" by simp
    moreover from assms that len have "fst (xs ! i) = i"
      by (metis nth_map nth_upt add_0)
    ultimately show ?thesis using d by (metis map_of_is_SomeI prod.collapse)
  qed
  then have "map (map_of xs) [0..<n] = map (\<lambda>i. Some (snd (xs ! i))) [0..<n]" by simp
  then have "List.map_filter (map_of xs) [0..<n] = map (\<lambda>i. snd (xs ! i)) [0..<n]"
    by (simp add: List.map_filter_def comp_def)
  also have "\<dots> = map snd xs"
    using len by (intro nth_equalityI) simp_all
  finally show ?thesis .
qed

lemma dataset_world_of:
  assumes "\<And>n. joblib_order E (n_proc a) n = [0..<n]"
  shows "generate_contrast_dataset_in (world_of E) a (w, []) =
     (fst (generate_contrast_dataset E a), (w, snd (generate_contrast_dataset E a)))"
proof (cases "read_inputs E a")
  case (Pair r0 l0)
  show ?thesis
  proof (cases r0)
    case (Inl e)
    with Pair show ?thesis
      by (simp add: generate_contrast_dataset_in_def generate_contrast_dataset_def
          generate_contrast_files_def exec_world_of_read_inputs bind_def)
  next
    case (Inr inp)
    obtain cd data_df ft where inp: "inp = (cd, data_df, ft)" by (cases inp)
    let ?job = "\<lambda>i. create_contrast_image E a cd data_df ft i (DataFrame [] manifest_columns)"
    obtain r1 l1 where rj: "run_jobs ?job [0..<length data_df] = (r1, l1)"
      by (cases "run_jobs ?job [0..<length data_df]")
    have par_in: "Parallel_in (world_of E) (n_proc a)
        (map (\<lambda>i. create_contrast_image_prog a cd data_df ft i (DataFrame [] manifest_columns))
           [0..<length data_df]) (w, l0) =
        (case r1 of Inl e \<Rightarrow> (Inl e, (w, l0 @ l1))
         | Inr xs \<Rightarrow> (Inr (map snd xs), (w, l0 @ l1)))"
      by (simp add: Parallel_in_def world_of_def finish_world_of [unfolded world_of_def] rj
          split: sum.splits)
    show ?thesis
    proof (cases r1)
      case (Inl e)
      with Pair Inr inp rj par_in assms show ?thesis
        by (simp add: generate_contrast_dataset_in_def generate_contrast_dataset_def
            generate_contrast_files_def exec_world_of_read_inputs Parallel_def bind_def)
    next
      case (Inr xs)
      from run_jobs_Inr [OF rj [unfolded Inr]] have "map fst xs = [0..<length data_df]"
        by simp
      from map_filter_finished [OF this]
      have mf: "List.map_filter (map_of xs) [0..<length data_df] = map snd xs" .
      from Pair \<open>r0 = Inr inp\<close> inp rj Inr par_in assms mf show ?thesis
        by (simp add: generate_contrast_dataset_in_def generate_contrast_dataset_def
            generate_contrast_files_def exec_world_of_read_inputs exec_world_of_write_outputs
            Parallel_def bind_def ret_def call_def raise_def Let_def split: sum.splits)
    qed
  qed
qed

end
